theory Spec2Isabelle
  imports Complex_Main
begin

section \<open>JavaScript values\<close>

subsection \<open>Numbers\<close>

text \<open>
  A JavaScript number is either \<open>NaN\<close>, one of the two infinities, or a finite value.
  Finite values are modelled by reals: rounding, overflow to an infinity and the sign of
  zero are not represented. Everything the component decides on numbers (the comparisons,
  \<open>Number.isNaN\<close>, \<open>Math.max\<close>, \<open>Math.min\<close>) follows the IEEE rules for the special
  values.
\<close>

datatype jsnum = NaN | NegInf | Fin real | PosInf

fun js_isNaN :: "jsnum \<Rightarrow> bool" where
  "js_isNaN NaN = True"
| "js_isNaN _ = False"

text \<open>\<open>a < b\<close>: false as soon as one side is \<open>NaN\<close>.\<close>

fun js_lt :: "jsnum \<Rightarrow> jsnum \<Rightarrow> bool" where
  "js_lt NaN _ = False"
| "js_lt _ NaN = False"
| "js_lt _ NegInf = False"
| "js_lt NegInf _ = True"
| "js_lt PosInf _ = False"
| "js_lt (Fin a) (Fin b) = (a < b)"
| "js_lt (Fin a) PosInf = True"

definition js_gt :: "jsnum \<Rightarrow> jsnum \<Rightarrow> bool" where
  "js_gt a b = js_lt b a"

text \<open>\<open>a === b\<close> on numbers: \<open>NaN\<close> is not equal to itself.\<close>

definition js_eq :: "jsnum \<Rightarrow> jsnum \<Rightarrow> bool" where
  "js_eq a b = (\<not> js_isNaN a \<and> \<not> js_isNaN b \<and> a = b)"

definition js_ge :: "jsnum \<Rightarrow> jsnum \<Rightarrow> bool" where
  "js_ge a b = (js_lt b a \<or> js_eq a b)"

text \<open>\<open>Math.max\<close> and \<open>Math.min\<close> of two arguments: \<open>NaN\<close> when one of them is.\<close>

definition js_max :: "jsnum \<Rightarrow> jsnum \<Rightarrow> jsnum" where
  "js_max a b = (if js_isNaN a \<or> js_isNaN b then NaN else if js_lt a b then b else a)"

definition js_min :: "jsnum \<Rightarrow> jsnum \<Rightarrow> jsnum" where
  "js_min a b = (if js_isNaN a \<or> js_isNaN b then NaN else if js_lt b a then b else a)"

fun js_neg :: "jsnum \<Rightarrow> jsnum" where
  "js_neg NaN = NaN"
| "js_neg NegInf = PosInf"
| "js_neg PosInf = NegInf"
| "js_neg (Fin a) = Fin (- a)"

fun js_add :: "jsnum \<Rightarrow> jsnum \<Rightarrow> jsnum" where
  "js_add NaN _ = NaN"
| "js_add _ NaN = NaN"
| "js_add PosInf NegInf = NaN"
| "js_add NegInf PosInf = NaN"
| "js_add PosInf _ = PosInf"
| "js_add NegInf _ = NegInf"
| "js_add (Fin a) (Fin b) = Fin (a + b)"
| "js_add (Fin a) b = b"

definition js_sub :: "jsnum \<Rightarrow> jsnum \<Rightarrow> jsnum" where
  "js_sub a b = js_add a (js_neg b)"

text \<open>The sign of a number that is not \<open>NaN\<close>: \<open>-1\<close>, \<open>0\<close> or \<open>1\<close>.\<close>

fun js_sign :: "jsnum \<Rightarrow> int" where
  "js_sign NaN = 0"
| "js_sign NegInf = - 1"
| "js_sign PosInf = 1"
| "js_sign (Fin a) = (if a < 0 then - 1 else if a = 0 then 0 else 1)"

definition js_signed_inf :: "int \<Rightarrow> jsnum" where
  "js_signed_inf s = (if s < 0 then NegInf else PosInf)"

fun js_mul :: "jsnum \<Rightarrow> jsnum \<Rightarrow> jsnum" where
  "js_mul NaN _ = NaN"
| "js_mul _ NaN = NaN"
| "js_mul (Fin a) (Fin b) = Fin (a * b)"
| "js_mul a b =
     (if js_sign a = 0 \<or> js_sign b = 0 then NaN else js_signed_inf (js_sign a * js_sign b))"

text \<open>
  Division: a finite value over an infinity is zero, an infinity over an infinity and
  zero over zero are \<open>NaN\<close>, and a non-zero value over zero is an infinity (the zero
  divisor counts as positive, signed zeros not being modelled).
\<close>

fun js_div :: "jsnum \<Rightarrow> jsnum \<Rightarrow> jsnum" where
  "js_div NaN _ = NaN"
| "js_div _ NaN = NaN"
| "js_div (Fin a) (Fin b) =
     (if b = 0 then (if a = 0 then NaN else js_signed_inf (js_sign (Fin a))) else Fin (a / b))"
| "js_div (Fin a) _ = Fin 0"
| "js_div a (Fin b) = js_signed_inf (js_sign a * (if b < 0 then - 1 else 1))"
| "js_div _ _ = NaN"

subsection \<open>Object properties\<close>

text \<open>
  A property of an object literal is absent, present with the value \<open>undefined\<close>, or
  present with a value. The two first cases read the same (\<open>undefined\<close>) but differ
  under the spread operator, which copies a property bound to \<open>undefined\<close>.
\<close>

datatype 'a jsprop = Absent | Undef | Val 'a

text \<open>Reading a property, and the property that an assignment of a value leaves.\<close>

fun prop_value :: "'a jsprop \<Rightarrow> 'a option" where
  "prop_value (Val v) = Some v"
| "prop_value _ = None"

fun prop_assign :: "'a option \<Rightarrow> 'a jsprop" where
  "prop_assign (Some v) = Val v"
| "prop_assign None = Undef"

text \<open>Destructuring with a default (\<open>const { k = d } = obj\<close>) and \<open>obj.k ?? d\<close>.\<close>

fun prop_default :: "'a \<Rightarrow> 'a jsprop \<Rightarrow> 'a" where
  "prop_default d (Val v) = v"
| "prop_default d _ = d"


text \<open>Truthiness of an optional boolean and of an optional string.\<close>

fun truthy_bool :: "bool jsprop \<Rightarrow> bool" where
  "truthy_bool (Val b) = b"
| "truthy_bool _ = False"

fun truthy_string :: "string jsprop \<Rightarrow> bool" where
  "truthy_string (Val s) = (s \<noteq> [])"
| "truthy_string _ = False"

subsection \<open>Strings\<close>

text \<open>
  Strings are lists of 8-bit characters. \<open>String.prototype.toLowerCase\<close> and
  \<open>toUpperCase\<close> are modelled on the ASCII letters and leave every other character
  as it is.
\<close>

definition char_toLowerCase :: "char \<Rightarrow> char" where
  "char_toLowerCase c =
     (case map_of (zip ''ABCDEFGHIJKLMNOPQRSTUVWXYZ'' ''abcdefghijklmnopqrstuvwxyz'') c of
        None \<Rightarrow> c
      | Some l \<Rightarrow> l)"

definition char_toUpperCase :: "char \<Rightarrow> char" where
  "char_toUpperCase c =
     (case map_of (zip ''abcdefghijklmnopqrstuvwxyz'' ''ABCDEFGHIJKLMNOPQRSTUVWXYZ'') c of
        None \<Rightarrow> c
      | Some u \<Rightarrow> u)"

definition toLowerCase :: "string \<Rightarrow> string" where
  "toLowerCase s = map char_toLowerCase s"

definition toUpperCase :: "string \<Rightarrow> string" where
  "toUpperCase s = map char_toUpperCase s"

text \<open>
  \<open>Number.parseInt(s, 16)\<close>: leading white space is skipped, then an optional sign and
  an optional \<open>0x\<close> prefix; the longest run of hexadecimal digits that follows is the
  value, and \<open>NaN\<close> is returned when that run is empty.
\<close>

definition isWhiteSpaceChar :: "char \<Rightarrow> bool" where
  "isWhiteSpaceChar c = (c \<in> set [CHR 0x09, CHR 0x0A, CHR 0x0B, CHR 0x0C, CHR 0x0D, CHR '' ''])"

definition hexDigitValue :: "char \<Rightarrow> nat option" where
  "hexDigitValue c =
     map_of [(CHR ''0'', 0), (CHR ''1'', 1), (CHR ''2'', 2), (CHR ''3'', 3), (CHR ''4'', 4),
             (CHR ''5'', 5), (CHR ''6'', 6), (CHR ''7'', 7), (CHR ''8'', 8), (CHR ''9'', 9),
             (CHR ''a'', 10), (CHR ''b'', 11), (CHR ''c'', 12), (CHR ''d'', 13), (CHR ''e'', 14),
             (CHR ''f'', 15), (CHR ''A'', 10), (CHR ''B'', 11), (CHR ''C'', 12), (CHR ''D'', 13),
             (CHR ''E'', 14), (CHR ''F'', 15)] c"

definition hexDigitsValue :: "string \<Rightarrow> nat" where
  "hexDigitsValue ds =
     foldl (\<lambda>acc c. 16 * acc + (case hexDigitValue c of None \<Rightarrow> 0 | Some d \<Rightarrow> d)) 0 ds"

definition js_parseInt16 :: "string \<Rightarrow> jsnum" where
  "js_parseInt16 s =
     (let s1 = dropWhile isWhiteSpaceChar s;
          negative = (take 1 s1 = ''-'');
          s2 = (if take 1 s1 = ''-'' \<or> take 1 s1 = ''+'' then drop 1 s1 else s1);
          s3 = (if take 2 s2 = ''0x'' \<or> take 2 s2 = ''0X'' then drop 2 s2 else s2);
          ds = takeWhile (\<lambda>c. hexDigitValue c \<noteq> None) s3
      in if ds = [] then NaN
         else if negative then Fin (- real (hexDigitsValue ds))
         else Fin (real (hexDigitsValue ds)))"

text \<open>
  An object is an association list in insertion order with no key twice (the
  enumeration order of integer-like keys is not modelled). Assigning to a key keeps its place when it is there and appends it otherwise.
\<close>

fun obj_get :: "('k \<times> 'v) list \<Rightarrow> 'k \<Rightarrow> 'v option" where
  "obj_get [] k = None"
| "obj_get ((k', v) # kvs) k = (if k' = k then Some v else obj_get kvs k)"

fun obj_set :: "'k \<Rightarrow> 'v \<Rightarrow> ('k \<times> 'v) list \<Rightarrow> ('k \<times> 'v) list" where
  "obj_set k v [] = [(k, v)]"
| "obj_set k v ((k', v') # kvs) = (if k' = k then (k, v) # kvs else (k', v') # obj_set k v kvs)"



section \<open>The data model\<close>

text \<open>
  The type declarations of the component live in its \<open>types\<close> module. The records below
  carry the fields that \<open>TaggedText.ts\<close> reads and writes, under the names it uses.
\<close>

type_synonym Sprite = nat
type_synonym SpriteSource = nat
type_synonym FontMap = "(string \<times> string) list"

datatype FontSize = FontSizeNumber jsnum | FontSizeString string

text \<open>
  \<open>TextStyleExtended\<close>. \<open>imgSrc\<close> is the key named by \<open>IMG_REFERENCE_PROPERTY\<close>;
  \<open>otherKeys\<close> holds the keys this file never reads.
\<close>

record TextStyleExtended =
  textTransform :: "string jsprop"
  align :: "string jsprop"
  fontScaleWidth :: "jsnum jsprop"
  fontScaleHeight :: "jsnum jsprop"
  fontSize :: "FontSize jsprop"
  fontFamily :: "string jsprop"
  wordWrap :: "bool jsprop"
  wordWrapWidth :: "jsnum jsprop"
  imgSrc :: "string jsprop"
  otherKeys :: "(string \<times> string) list"

type_synonym TextStyleSet = "(string \<times> TextStyleExtended) list"

record Bounds =
  bounds_x :: jsnum
  bounds_y :: jsnum
  bounds_width :: jsnum
  bounds_height :: jsnum

datatype Color = ColorNumber jsnum | ColorString string

record TextDecorationMetrics =
  decoration_bounds :: Bounds
  decoration_color :: Color

record FontProperties =
  ascent :: jsnum
  descent :: jsnum
  fp_fontSize :: jsnum

text \<open>
  A segment token. Its content is a string for the text, white space and newline
  segments and a sprite for an image segment; \<open>tags\<close> is the comma-separated list of
  the active tag names.
\<close>

datatype Content = TextContent string | SpriteContent Sprite

record 'c Token =
  content :: 'c
  tags :: string
  style :: TextStyleExtended
  bounds :: Bounds
  fontProperties :: FontProperties
  textDecorations :: "TextDecorationMetrics list jsprop"

type_synonym SegmentToken = "Content Token"
type_synonym TextSegmentToken = "string Token"
type_synonym WordToken = "SegmentToken list"
type_synonym LineToken = "WordToken list"
type_synonym ParagraphToken = "LineToken list"

record TaggedTextOptions =
  skipUpdates :: "bool jsprop"
  skipDraw :: "bool jsprop"
  drawWhitespace :: "bool jsprop"
  debug :: "bool jsprop"
  debugConsole :: "bool jsprop"
  wrapEmoji :: "bool jsprop"
  scaleIcons :: "bool jsprop"
  splitStyle :: "string jsprop"
  overdrawDecorations :: "jsnum jsprop"
  adjustFontBaseline :: "FontMap jsprop"
  imgMap :: "(string \<times> SpriteSource) list jsprop"

subsection \<open>Display objects\<close>

text \<open>
  What the component keeps of the display objects it creates: a filled rectangle for a
  \<open>PIXI.Graphics\<close>, and for a \<open>PIXI.Text\<close> its text, its style, its scale, its position
  and its children.
\<close>

record Drawing =
  fillColor :: Color
  rect_x :: jsnum
  rect_y :: jsnum
  rect_width :: jsnum
  rect_height :: jsnum

record TextField =
  field_text :: string
  field_style :: TextStyleExtended
  scale_x :: jsnum
  scale_y :: jsnum
  position_x :: jsnum
  position_y :: jsnum
  children :: "Drawing list"

datatype DebugChild = DebugGraphics | InfoText string jsnum jsnum

subsection \<open>The component\<close>

text \<open>
  The fields of a \<open>TaggedText\<close> instance. \<open>textValue\<close> is the private \<open>_text\<close>. A
  container is the list of its children, or \<open>None\<close> for \<open>null\<close>; adding a child that is
  already in a container moves it to the end. The position of a sprite belongs to the
  sprite object, which the tokens, the templates and the containers share: the
  positions are kept in a store indexed by sprite. \<open>warnings\<close> is the sequence of
  \<open>(code, message)\<close> pairs handed to the warnings handler, \<open>console\<close> what was written
  with \<open>console.log\<close>.
\<close>

record TaggedText =
  options :: TaggedTextOptions
  needsUpdate :: bool
  needsDraw :: bool
  tokens :: ParagraphToken
  textValue :: string
  tagStyles :: TextStyleSet
  textFields :: "TextField list"
  sprites :: "Sprite list"
  decorations :: "Drawing list"
  spriteTemplates :: "(string \<times> Sprite) list"
  textContainer :: "TextField list option"
  spriteContainer :: "Sprite list option"
  decorationContainer :: "Drawing list option"
  debugContainer :: "DebugChild list option"
  spritePositions :: "(Sprite \<times> jsnum \<times> jsnum) list"
  warnings :: "(string \<times> string) list"
  console :: "string list"

datatype Exception = Error string | TypeError string

text \<open>
  A method either returns, or throws: the left injection carries the exception and the
  instance as the throw leaves it.
\<close>

type_synonym 'a Result = "(Exception \<times> TaggedText) + 'a"

subsection \<open>What the file imports\<close>

text \<open>
  \<open>TaggedText.ts\<close> imports constants and functions from the modules \<open>types\<close>, \<open>tags\<close>,
  \<open>style\<close>, \<open>layout\<close>, \<open>stringUtil\<close>, \<open>pixiUtils\<close>, \<open>defaultStyle\<close> and
  \<open>defaultOptions\<close>. They are parameters of the model, gathered in one record, together
  with two conversions of the language itself (the string of a number and the entries of
  a style object with their values as strings) and two behaviours of the graphics
  library: \<open>pixiFontSize\<close> is the \<open>fontSize\<close> that the style of a new \<open>PIXI.Text\<close>
  holds for the \<open>fontSize\<close> it was given, and \<open>beginFill\<close> is the exception that
  \<open>Graphics.beginFill\<close> throws for a colour, if any. \<open>parseTagsNew\<close> returns, with its
  result, the warnings it reports through the callback it is given. \<open>resolveSprite\<close>
  stands for the lookup of the sprite of an image source in
  \<open>createSpriteTemplatesFromSourceMap\<close>, which ends in a sprite or in the error thrown.
\<close>

record ('pt, 'st) Modules =
  DEFAULT_STYLE :: TextStyleExtended
  DEFAULT_OPTIONS :: TaggedTextOptions
  IMG_REFERENCE_PROPERTY :: string
  EMOJI_TAG :: string
  parseTagsNew :: "string \<Rightarrow> string list \<Rightarrow> bool option \<Rightarrow> 'pt \<times> (string \<times> string) list"
  mapTagsToStyles :: "'pt \<Rightarrow> TextStyleSet \<Rightarrow> (string \<times> Sprite) list option \<Rightarrow> 'st"
  calculateTokens :: "'st \<Rightarrow> string option \<Rightarrow> bool option \<Rightarrow> FontMap option \<Rightarrow> ParagraphToken"
  removeTags :: "string \<Rightarrow> string"
  getStyleForTagExt :: "string \<Rightarrow> TextStyleSet \<Rightarrow> (string \<times> string) list \<Rightarrow> TextStyleExtended option"
  capitalize :: "string \<Rightarrow> string"
  fontSizeStringToNumber :: "string \<Rightarrow> jsnum"
  convertUnsupportedAlignment :: "string option \<Rightarrow> string option"
  isNotWhitespaceToken :: "SegmentToken \<Rightarrow> bool"
  isNewlineToken :: "SegmentToken \<Rightarrow> bool"
  resolveSprite :: "SpriteSource \<Rightarrow> Exception + Sprite"
  numberToString :: "jsnum \<Rightarrow> string"
  styleEntries :: "TextStyleExtended \<Rightarrow> (string \<times> string) list"
  pixiFontSize :: "FontSize option \<Rightarrow> FontSize jsprop"
  beginFill :: "Color \<Rightarrow> Exception option"

text \<open>
  Modelled from the spec: the reserved tag name \<open>default\<close> (\<open>DEFAULT_KEY\<close> of the
  \<open>types\<close> module), and the two token tests \<open>isTextToken\<close> and \<open>isSpriteToken\<close> of the
  same module: the content of a segment is a string or an image handle.
\<close>

definition DEFAULT_KEY :: string where
  "DEFAULT_KEY = ''default''"

definition isTextToken :: "SegmentToken \<Rightarrow> bool" where
  "isTextToken t = (case content t of TextContent s \<Rightarrow> True | SpriteContent sp \<Rightarrow> False)"

definition isSpriteToken :: "SegmentToken \<Rightarrow> bool" where
  "isSpriteToken t = (case content t of TextContent s \<Rightarrow> False | SpriteContent sp \<Rightarrow> True)"

section \<open>Styles and options\<close>

definition emptyStyle :: TextStyleExtended where
  "emptyStyle = \<lparr> textTransform = Absent, align = Absent, fontScaleWidth = Absent,
     fontScaleHeight = Absent, fontSize = Absent, fontFamily = Absent, wordWrap = Absent,
     wordWrapWidth = Absent, imgSrc = Absent, otherKeys = [] \<rparr>"



text \<open>The getter \<open>defaultStyle\<close>: \<open>this.tagStyles?.default\<close>.\<close>

definition defaultStyle :: "TaggedText \<Rightarrow> TextStyleExtended option" where
  "defaultStyle st = obj_get (tagStyles st) ''default''"

text \<open>The getter \<open>tokensFlat\<close>: \<open>this._tokens.flat(3)\<close>.\<close>

definition tokensFlat :: "TaggedText \<Rightarrow> SegmentToken list" where
  "tokensFlat st = concat (concat (tokens st))"

text \<open>
  Modelled from the spec: the warnings channel (\<open>logWarning\<close> of the \<open>errorMessaging\<close>
  module) is a sink that receives the pair and never throws.
\<close>

definition logWarning :: "string \<Rightarrow> string \<Rightarrow> TaggedText \<Rightarrow> TaggedText" where
  "logWarning code message st = st\<lparr> warnings := warnings st @ [(code, message)] \<rparr>"

section \<open>Creating the display objects\<close>

text \<open>
  \<open>createTextField\<close>: a new \<open>PIXI.Text\<close> with the text and the style given. The style
  object of the text field holds the font size as the library normalises it.
\<close>

definition createTextField :: "('pt, 'st) Modules \<Rightarrow> string \<Rightarrow> TextStyleExtended \<Rightarrow> TextField" where
  "createTextField M t sty = \<lparr> field_text = t,
     field_style = sty\<lparr> fontSize := pixiFontSize M (prop_value (fontSize sty)) \<rparr>,
     scale_x = Fin 1, scale_y = Fin 1, position_x = Fin 0, position_y = Fin 0, children = [] \<rparr>"

text \<open>
  The expression that \<open>createTextFieldForToken\<close> applies to each of the two scale
  factors: \<open>Number.isNaN(v) || v < 0 ? 0 : v\<close>.
\<close>

definition clampFontScale :: "jsnum \<Rightarrow> jsnum" where
  "clampFontScale v = (if js_isNaN v \<or> js_lt v (Fin 0) then Fin 0 else v)"

definition createTextFieldForToken :: "('pt, 'st) Modules \<Rightarrow> TextSegmentToken \<Rightarrow> TextField" where
  "createTextFieldForToken M token =
     (let transform = toLowerCase (prop_default [] (textTransform (style token)));
          txt = (if transform = ''lowercase'' then toLowerCase (content token)
                 else if transform = ''uppercase'' then toUpperCase (content token)
                 else if transform = ''capitalize'' then capitalize M (content token)
                 else content token);
          alignClassic = convertUnsupportedAlignment M (prop_value (align (style token)));
          sanitizedStyle = (style token)\<lparr> align := prop_assign alignClassic \<rparr>;
          textField = createTextField M txt sanitizedStyle;
          scaleWidth = clampFontScale (prop_default (Fin 1) (fontScaleWidth (style token)));
          scaleHeight = clampFontScale (prop_default (Fin 1) (fontScaleHeight (style token)));
          largerScale = js_max scaleWidth scaleHeight
      in if js_gt largerScale (Fin 1) then
           (let finalScaleWidth =
                  (if js_eq largerScale scaleHeight then js_div scaleWidth largerScale else Fin 1);
                finalScaleHeight =
                  (if js_eq largerScale scaleHeight then Fin 1 else js_div scaleHeight largerScale);
                fontSizePx =
                  js_mul (case prop_default (FontSizeNumber (Fin 0)) (fontSize (field_style textField)) of
                            FontSizeString fs \<Rightarrow> fontSizeStringToNumber M fs
                          | FontSizeNumber fs \<Rightarrow> fs) largerScale
            in textField\<lparr> field_style := (field_style textField)\<lparr> fontSize := Val (FontSizeNumber fontSizePx) \<rparr>,
                 scale_x := finalScaleWidth, scale_y := finalScaleHeight \<rparr>)
         else textField\<lparr> scale_x := scaleWidth, scale_y := scaleHeight \<rparr>)"

definition invalidColorMessage :: string where
  "invalidColorMessage =
     ''Sorry, at this point, only hex colors are supported for textDecorations like underlines. '' @
     ''Please use either a hex number like 0x66FF33 or a string like '' @
     [CHR 0x27] @ ''#66FF33'' @ [CHR 0x27]"

text \<open>
  \<open>createDrawingForTextDecoration\<close> returns the drawing; the instance changes only by
  the warning it may log. The colour goes to \<open>beginFill\<close> as it is after the
  conversion, and an exception of \<open>beginFill\<close> ends the call.
\<close>

definition createDrawingForTextDecoration ::
    "('pt, 'st) Modules \<Rightarrow> TaggedText \<Rightarrow> TextDecorationMetrics \<Rightarrow> (Drawing \<times> TaggedText) Result" where
  "createDrawingForTextDecoration M st textDecoration =
     (let overdraw = prop_default (Fin 0) (overdrawDecorations (options st));
          bnd = decoration_bounds textDecoration;
          colored = (case decoration_color textDecoration of
                       ColorString c \<Rightarrow>
                         (if take 1 c = ''#''
                          then (ColorNumber (js_parseInt16 (''0x'' @ drop 1 c)), st)
                          else (ColorString c, logWarning ''invalid-color'' invalidColorMessage st))
                     | ColorNumber c \<Rightarrow> (ColorNumber c, st));
          midpoint = js_add (bounds_x bnd) (js_div (bounds_width bnd) (Fin 2));
          x = js_min (js_sub (bounds_x bnd) overdraw) midpoint;
          width = js_max (js_add (bounds_width bnd) (js_mul overdraw (Fin 2))) (Fin 0)
      in case beginFill M (fst colored) of
           Some e \<Rightarrow> Inl (e, snd colored)
         | None \<Rightarrow>
             Inr (\<lparr> fillColor = fst colored, rect_x = x, rect_y = bounds_y bnd, rect_width = width,
                    rect_height = bounds_height bnd \<rparr>, snd colored))"

section \<open>The debug string\<close>

fun joinWith :: "string \<Rightarrow> string list \<Rightarrow> string" where
  "joinWith sep [] = []"
| "joinWith sep [x] = x"
| "joinWith sep (x # y # ys) = x @ sep @ joinWith sep (y # ys)"

text \<open>\<open>s.split(c)\<close> for a one-character separator.\<close>

fun splitOn :: "char \<Rightarrow> string \<Rightarrow> string list" where
  "splitOn c [] = [[]]"
| "splitOn c (x # xs) =
     (if x = c then [] # splitOn c xs
      else (case splitOn c xs of [] \<Rightarrow> [[x]] | p # ps \<Rightarrow> (x # p) # ps))"

definition indexString :: "('pt, 'st) Modules \<Rightarrow> nat \<Rightarrow> string" where
  "indexString M n = numberToString M (Fin (real n))"

definition tokenDebugString ::
    "('pt, 'st) Modules \<Rightarrow> nat \<Rightarrow> nat \<Rightarrow> nat \<Rightarrow> SegmentToken \<Rightarrow> string" where
  "tokenDebugString M lineNumber wordNumber tokenNumber token =
     (let nl = CHR 0x0A # ''    '';
          txt = (case content token of
                   TextContent c \<Rightarrow>
                     (if isNewlineToken M token then [CHR 0x5C, CHR ''n'']
                      else [CHR 0x22] @ c @ [CHR 0x22])
                 | SpriteContent sp \<Rightarrow> ''[Image]'');
          b = bounds token;
          f = fontProperties token
      in [CHR 0x0A] @ txt @ '': ('' @ indexString M lineNumber @ ''/'' @ indexString M wordNumber @
           ''/'' @ indexString M tokenNumber @ '')'' @
         nl @ ''tags: '' @
           (if length (tags token) = 0 then ''<none>''
            else joinWith '', '' (map (\<lambda>tag. ''<'' @ tag @ ''>'') (splitOn CHR '','' (tags token)))) @
         nl @ ''style: '' @
           joinWith ''; '' (map (\<lambda>(k, v). joinWith '':'' [k, v]) (styleEntries M (style token))) @
         nl @ ''size: x:'' @ numberToString M (bounds_x b) @ '' y:'' @ numberToString M (bounds_y b) @
           '' width:'' @ numberToString M (bounds_width b) @
           '' height:'' @ numberToString M (bounds_height b) @
           '' bottom:'' @ numberToString M (js_add (bounds_height b) (bounds_y b)) @
           '' right:'' @ numberToString M (js_add (bounds_x b) (bounds_width b)) @
         nl @ ''font: fontSize:'' @ numberToString M (fp_fontSize f) @
           '' ascent:'' @ numberToString M (ascent f) @
           '' descent:'' @ numberToString M (descent f))"

text \<open>
  \<open>toDebugString\<close>. The nested arrays that the maps over lines and words produce are
  appended to a string, which joins them with commas at both levels.
\<close>

definition toDebugString :: "('pt, 'st) Modules \<Rightarrow> TaggedText \<Rightarrow> string" where
  "toDebugString M st =
     removeTags M (textValue st) @ [CHR 0x0A] @ ''====='' @ [CHR 0x0A] @
     joinWith '',''
       (map (\<lambda>(lineNumber, line).
          joinWith '',''
            (map (\<lambda>(wordNumber, word).
               joinWith [CHR 0x0A]
                 (map (\<lambda>(tokenNumber, token).
                    tokenDebugString M lineNumber wordNumber tokenNumber token)
                  (enumerate 0 word)))
             (enumerate 0 line)))
        (enumerate 0 (tokens st)))"

section \<open>Drawing\<close>

text \<open>\<open>resetChildren\<close>: four new containers, and the three lists of references emptied.\<close>

definition resetChildren :: "TaggedText \<Rightarrow> TaggedText" where
  "resetChildren st = st\<lparr> textContainer := Some [], spriteContainer := Some [],
     decorationContainer := Some [], debugContainer := Some [],
     textFields := [], sprites := [], decorations := [] \<rparr>"

definition asTextSegmentToken :: "SegmentToken \<Rightarrow> string \<Rightarrow> TextSegmentToken" where
  "asTextSegmentToken t c = \<lparr> content = c, tags = tags t, style = style t, bounds = bounds t,
     fontProperties = fontProperties t, textDecorations = textDecorations t \<rparr>"

text \<open>
  The text field that the loop of \<open>draw\<close> is working on is the last one of the
  container and of \<open>textFields\<close>, which share it.
\<close>

definition mapLast :: "('a \<Rightarrow> 'a) \<Rightarrow> 'a list \<Rightarrow> 'a list" where
  "mapLast f xs = (if xs = [] then [] else butlast xs @ [f (last xs)])"

definition mapLastTextField :: "(TextField \<Rightarrow> TextField) \<Rightarrow> TaggedText \<Rightarrow> TaggedText" where
  "mapLastTextField f st = st\<lparr> textContainer := map_option (mapLast f) (textContainer st),
     textFields := mapLast f (textFields st) \<rparr>"

text \<open>
  The loop over the decorations of a text token: each drawing becomes a child of the
  text field and is pushed to \<open>decorations\<close>.
\<close>

fun drawDecorations ::
    "('pt, 'st) Modules \<Rightarrow> TaggedText \<Rightarrow> TextDecorationMetrics list \<Rightarrow> TaggedText Result" where
  "drawDecorations M st [] = Inr st"
| "drawDecorations M st (d # ds) =
     (case createDrawingForTextDecoration M st d of
        Inl e \<Rightarrow> Inl e
      | Inr made \<Rightarrow>
          drawDecorations M
            ((mapLastTextField (\<lambda>f. f\<lparr> children := children f @ [fst made] \<rparr>) (snd made))
               \<lparr> decorations := decorations (snd made) @ [fst made] \<rparr>) ds)"

text \<open>
  The body of the loop of \<open>draw\<close> over the tokens; the boolean is \<open>drewDecorations\<close>.
\<close>

definition drawToken ::
    "('pt, 'st) Modules \<Rightarrow> TaggedText \<times> bool \<Rightarrow> SegmentToken \<Rightarrow> (TaggedText \<times> bool) Result" where
  "drawToken M acc t =
     (case content t of
        TextContent c \<Rightarrow>
          (let created = createTextFieldForToken M (asTextSegmentToken t c);
               st = fst acc;
               added = st\<lparr> textContainer := map_option (\<lambda>cs. cs @ [created]) (textContainer st),
                          textFields := textFields st @ [created] \<rparr>;
               decos = (case textDecorations t of Val ds \<Rightarrow> ds | Undef \<Rightarrow> [] | Absent \<Rightarrow> [])
           in case drawDecorations M added decos of
                Inl e \<Rightarrow> Inl e
              | Inr decorated \<Rightarrow>
                  Inr (mapLastTextField (\<lambda>f. f\<lparr> position_x := bounds_x (bounds t),
                                               position_y := bounds_y (bounds t) \<rparr>) decorated,
                       snd acc \<or> decos \<noteq> []))
      | SpriteContent sp \<Rightarrow>
          (let st = fst acc
           in Inr (st\<lparr> sprites := sprites st @ [sp],
                       spriteContainer := map_option (\<lambda>cs. filter (\<lambda>x. x \<noteq> sp) cs @ [sp]) (spriteContainer st),
                       spritePositions := obj_set sp (bounds_x (bounds t), bounds_y (bounds t)) (spritePositions st) \<rparr>,
                   snd acc)))"

fun drawTokens ::
    "('pt, 'st) Modules \<Rightarrow> TaggedText \<times> bool \<Rightarrow> SegmentToken list \<Rightarrow> (TaggedText \<times> bool) Result" where
  "drawTokens M acc [] = Inr acc"
| "drawTokens M acc (t # ts) =
     (case drawToken M acc t of
        Inl e \<Rightarrow> Inl e
      | Inr acc' \<Rightarrow> drawTokens M acc' ts)"

definition newlineGlyph :: string where
  "newlineGlyph = [CHR 0xE2, CHR 0x86, CHR 0xA9, CHR 0xEF, CHR 0xB8, CHR 0x8E]"

definition debugInfoTexts :: "('pt, 'st) Modules \<Rightarrow> SegmentToken \<Rightarrow> DebugChild list" where
  "debugInfoTexts M t =
     (let x = bounds_x (bounds t); y = bounds_y (bounds t)
      in (if isNewlineToken M t
          then [InfoText newlineGlyph (js_add x (Fin 1)) (js_add (js_add y (Fin 10)) (Fin 1))]
          else []) @
         (if isTextToken t then [InfoText (tags t) (js_add x (Fin 1)) (js_add y (Fin 1))] else []))"

text \<open>
  \<open>drawDebug\<close>. The strokes and fills go to the new graphics object and are not kept;
  the children added to the debug container are. Reading \<open>wordWrap\<close> of the default
  style, for the first line, fails when the style set has no \<open>default\<close> entry.
\<close>

definition wordWrapTypeError :: Exception where
  "wordWrapTypeError =
     TypeError (''Cannot read properties of undefined (reading '' @ [CHR 0x27] @ ''wordWrap'' @
                [CHR 0x27] @ '')'')"

definition drawDebug :: "('pt, 'st) Modules \<Rightarrow> TaggedText \<Rightarrow> TaggedText Result" where
  "drawDebug M st =
     (case debugContainer st of
        None \<Rightarrow> Inl (Error (''Somehow the debug container is null. This shouldn't be possible. '' @
                           ''Perhaps you've destroyed this object?''), st)
      | Some cs \<Rightarrow>
          if tokens st \<noteq> [] \<and> defaultStyle st = None
          then Inl (wordWrapTypeError, st\<lparr> debugContainer := Some (cs @ [DebugGraphics]) \<rparr>)
          else Inr (st\<lparr> debugContainer :=
                 Some (cs @ [DebugGraphics] @ concat (map (debugInfoTexts M) (concat (concat (tokens st))))) \<rparr>))"

text \<open>
  The tokens that \<open>draw\<close> renders: all of them when \<open>drawWhitespace\<close> is set, and
  otherwise those that are not white space.
\<close>

definition renderedTokens :: "('pt, 'st) Modules \<Rightarrow> TaggedText \<Rightarrow> SegmentToken list" where
  "renderedTokens M st =
     (if truthy_bool (drawWhitespace (options st)) then tokensFlat st
      else filter (isNotWhitespaceToken M) (tokensFlat st))"

definition decorationWhitespaceMessage :: string where
  "decorationWhitespaceMessage =
     ''Text decorations, such as underlines, will not appear under whitespace unless the '' @
     ''`drawWhitespace` option is set to `true`.''"

text \<open>The end of \<open>draw\<close>, after the loop over the tokens.\<close>

definition finishDraw :: "('pt, 'st) Modules \<Rightarrow> TaggedText \<times> bool \<Rightarrow> TaggedText Result" where
  "finishDraw M drawn =
     (let warned = (if drawWhitespace (options (fst drawn)) = Val False \<and> snd drawn
                    then logWarning ''text-decoration-and-whitespace''
                           decorationWhitespaceMessage (fst drawn)
                    else fst drawn)
      in if truthy_bool (debug (options warned))
         then (case drawDebug M warned of
                 Inl e \<Rightarrow> Inl e
               | Inr st' \<Rightarrow> Inr (st'\<lparr> needsDraw := False \<rparr>))
         else Inr (warned\<lparr> needsDraw := False \<rparr>))"

definition draw :: "('pt, 'st) Modules \<Rightarrow> TaggedText \<Rightarrow> TaggedText Result" where
  "draw M st0 =
     (let st = resetChildren st0
      in if textContainer st = None \<or> spriteContainer st = None
         then Inl (Error (''Somehow the textContainer or spriteContainer is null. '' @
                          ''This shouldn't be possible. Perhaps you've destroyed this object?''), st)
         else (case drawTokens M (st, False) (renderedTokens M st) of
                 Inl e \<Rightarrow> Inl e
               | Inr drawn \<Rightarrow> finishDraw M drawn))"

definition drawIfShould ::
    "('pt, 'st) Modules \<Rightarrow> bool option \<Rightarrow> TaggedText \<Rightarrow> (bool \<times> TaggedText) Result" where
  "drawIfShould M forcedSkipDraw st =
     (if forcedSkipDraw = Some False \<or> (forcedSkipDraw = None \<and> skipDraw (options st) = Val False)
      then (case draw M st of Inl e \<Rightarrow> Inl e | Inr st' \<Rightarrow> Inr (True, st'))
      else Inr (False, st))"

section \<open>Updating\<close>

definition update ::
    "('pt, 'st) Modules \<Rightarrow> bool option \<Rightarrow> TaggedText \<Rightarrow> (ParagraphToken \<times> TaggedText) Result" where
  "update M skipDraw' st0 =
     (let opts = options st0;
          spriteTemplates' = (case imgMap opts of Val m \<Rightarrow> Some (spriteTemplates st0)
                              | Undef \<Rightarrow> None | Absent \<Rightarrow> None);
          parsed = parseTagsNew M (textValue st0) (map fst (tagStyles st0)) (prop_value (wrapEmoji opts));
          st1 = st0\<lparr> warnings := warnings st0 @ snd parsed \<rparr>;
          styledTokens = mapTagsToStyles M (fst parsed) (tagStyles st1) spriteTemplates';
          newFinalTokens = calculateTokens M styledTokens (prop_value (splitStyle opts))
                             (prop_value (scaleIcons opts)) (prop_value (adjustFontBaseline opts));
          st2 = st1\<lparr> tokens := newFinalTokens, needsDraw := True \<rparr>
      in case drawIfShould M skipDraw' st2 of
           Inl e \<Rightarrow> Inl e
         | Inr r \<Rightarrow>
             (let st3 = snd r;
                  st4 = (if truthy_bool (debugConsole (options st3))
                         then st3\<lparr> console := console st3 @ [toDebugString M st3] \<rparr>
                         else st3)
              in Inr (newFinalTokens, st4\<lparr> needsUpdate := False \<rparr>)))"

definition updateIfShould ::
    "('pt, 'st) Modules \<Rightarrow> bool option \<Rightarrow> TaggedText \<Rightarrow> (bool \<times> TaggedText) Result" where
  "updateIfShould M forcedSkipUpdate st =
     (if forcedSkipUpdate = Some False
         \<or> (forcedSkipUpdate = None \<and> skipUpdates (options st) = Val False)
      then (case update M None st of Inl e \<Rightarrow> Inl e | Inr r \<Rightarrow> Inr (True, snd r))
      else Inr (False, st))"


section \<open>The setters\<close>

definition setText ::
    "('pt, 'st) Modules \<Rightarrow> string \<Rightarrow> bool option \<Rightarrow> TaggedText \<Rightarrow> TaggedText Result" where
  "setText M t skipUpdate st =
     (if t = textValue st \<and> needsUpdate st = False then Inr st
      else (case updateIfShould M skipUpdate (st\<lparr> textValue := t, needsUpdate := True \<rparr>) of
              Inl e \<Rightarrow> Inl e
            | Inr r \<Rightarrow> Inr (snd r)))"

definition imgOnDefaultMessage :: "('pt, 'st) Modules \<Rightarrow> string" where
  "imgOnDefaultMessage M =
     ''Style '' @ [CHR 0x22] @ IMG_REFERENCE_PROPERTY M @ [CHR 0x22] @ '' can not be set on the '' @
     [CHR 0x22] @ DEFAULT_KEY @ [CHR 0x22] @
     '' style because it will add images to EVERY tag!''"

definition setStyleForTag ::
    "('pt, 'st) Modules \<Rightarrow> string \<Rightarrow> TextStyleExtended \<Rightarrow> bool option \<Rightarrow> TaggedText
       \<Rightarrow> (bool \<times> TaggedText) Result" where
  "setStyleForTag M tag styles skipUpdate st0 =
     (let st1 = st0\<lparr> tagStyles := obj_set tag styles (tagStyles st0) \<rparr>
      in if tag = DEFAULT_KEY
         then (case defaultStyle st1 of
                 None \<Rightarrow> Inl (TypeError ''Cannot read properties of undefined'', st1)
               | Some d \<Rightarrow>
                   (let st2 = (if truthy_string (imgSrc d)
                               then (logWarning (IMG_REFERENCE_PROPERTY M @ ''-on-default'')
                                       (imgOnDefaultMessage M) st1)
                                      \<lparr> tagStyles := obj_set ''default'' (d\<lparr> imgSrc := Undef \<rparr>) (tagStyles st1) \<rparr>
                               else st1)
                    in case updateIfShould M skipUpdate (st2\<lparr> needsUpdate := True \<rparr>) of
                         Inl e \<Rightarrow> Inl e
                       | Inr r \<Rightarrow> Inr (True, snd r)))
         else (case updateIfShould M skipUpdate (st1\<lparr> needsUpdate := True \<rparr>) of
                 Inl e \<Rightarrow> Inl e
               | Inr r \<Rightarrow> Inr (True, snd r)))"






section \<open>Construction\<close>



text \<open>The instance as the field initialisers and the first \<open>resetChildren\<close> leave it.\<close>

definition initialInstance :: "TaggedTextOptions \<Rightarrow> TaggedText" where
  "initialInstance opts = \<lparr> options = opts, needsUpdate = True, needsDraw = True, tokens = [],
     textValue = [], tagStyles = [], textFields = [], sprites = [], decorations = [],
     spriteTemplates = [], textContainer = Some [], spriteContainer = Some [],
     decorationContainer = Some [], debugContainer = Some [], spritePositions = [],
     warnings = [], console = [] \<rparr>"


section \<open>A concrete choice of the imported functions\<close>

text \<open>
  To evaluate the model on examples, the imported functions are instantiated: a parser
  that takes the whole text as one segment and reports nothing, a layout that puts this
  segment alone on one line, and simple versions of the helpers.

  Modelled from the spec: \<open>removeTags\<close> (module \<open>tags\<close>) strips the tag markup and
  returns the literal text; a text without \<open><\<close> is returned as it is.
\<close>

fun stripTags :: "bool \<Rightarrow> string \<Rightarrow> string" where
  "stripTags inTag [] = []"
| "stripTags False (c # cs) = (if c = CHR ''<'' then stripTags True cs else c # stripTags False cs)"
| "stripTags True (c # cs) = (if c = CHR ''>'' then stripTags False cs else stripTags True cs)"

fun decimalDigits :: "nat \<Rightarrow> string" where
  "decimalDigits n =
     (if n < 10 then [''0123456789'' ! n]
      else decimalDigits (n div 10) @ [''0123456789'' ! (n mod 10)])"

fun exampleNumberToString :: "jsnum \<Rightarrow> string" where
  "exampleNumberToString NaN = ''NaN''"
| "exampleNumberToString PosInf = ''Infinity''"
| "exampleNumberToString NegInf = ''-Infinity''"
| "exampleNumberToString (Fin r) = (if r < 0 then ''-'' else []) @ decimalDigits (nat \<lfloor>\<bar>r\<bar>\<rfloor>)"

text \<open>
  The graphics library of the examples: a text style keeps a numeric font size, reads
  the leading decimal digits of a string and takes \<open>26\<close> when no size is given;
  \<open>beginFill\<close> accepts the numbers from \<open>0\<close> to \<open>0xFFFFFF\<close> and a few colour names, and
  throws for any other colour.
\<close>

definition js_parseInt10 :: "string \<Rightarrow> jsnum" where
  "js_parseInt10 s =
     (let s1 = dropWhile isWhiteSpaceChar s;
          negative = (take 1 s1 = ''-'');
          s2 = (if take 1 s1 = ''-'' \<or> take 1 s1 = ''+'' then drop 1 s1 else s1);
          ds = takeWhile (\<lambda>c. c \<in> set ''0123456789'') s2;
          n = foldl (\<lambda>acc c. 10 * acc + (case hexDigitValue c of None \<Rightarrow> 0 | Some d \<Rightarrow> d)) 0 ds
      in if ds = [] then NaN else if negative then Fin (- real n) else Fin (real n))"

fun examplePixiFontSize :: "FontSize option \<Rightarrow> FontSize jsprop" where
  "examplePixiFontSize None = Val (FontSizeNumber (Fin 26))"
| "examplePixiFontSize (Some (FontSizeNumber n)) = Val (FontSizeNumber n)"
| "examplePixiFontSize (Some (FontSizeString fs)) = Val (FontSizeNumber (js_parseInt10 fs))"

fun exampleBeginFill :: "Color \<Rightarrow> Exception option" where
  "exampleBeginFill (ColorNumber n) =
     (if js_ge n (Fin 0) \<and> js_ge (Fin 16777215) n then None
      else Some (Error (''Unable to convert color '' @ exampleNumberToString n)))"
| "exampleBeginFill (ColorString c) =
     (if c \<in> set [''red'', ''green'', ''blue'', ''black'', ''white''] then None
      else Some (Error (''Unable to convert color '' @ c)))"

definition exampleBounds :: Bounds where
  "exampleBounds = \<lparr> bounds_x = Fin 0, bounds_y = Fin 0, bounds_width = Fin 30, bounds_height = Fin 12 \<rparr>"

definition exampleFontProperties :: FontProperties where
  "exampleFontProperties = \<lparr> ascent = Fin 9, descent = Fin 3, fp_fontSize = Fin 12 \<rparr>"

definition exampleOptions :: TaggedTextOptions where
  "exampleOptions = \<lparr> skipUpdates = Val False, skipDraw = Val False, drawWhitespace = Val False,
     debug = Val False, debugConsole = Val False, wrapEmoji = Val False, scaleIcons = Val True,
     splitStyle = Val ''words'', overdrawDecorations = Val (Fin 0), adjustFontBaseline = Absent,
     imgMap = Absent \<rparr>"

definition exampleModules :: "(string, string \<times> TextStyleExtended) Modules" where
  "exampleModules = \<lparr>
     DEFAULT_STYLE = emptyStyle\<lparr> fontSize := Val (FontSizeNumber (Fin 26)) \<rparr>,
     DEFAULT_OPTIONS = exampleOptions,
     IMG_REFERENCE_PROPERTY = ''imgSrc'',
     EMOJI_TAG = ''__EMOJI__'',
     parseTagsNew = (\<lambda>t keys wrap. (t, [])),
     mapTagsToStyles = (\<lambda>p styles templates.
        (p, case obj_get styles ''default'' of None \<Rightarrow> emptyStyle | Some d \<Rightarrow> d)),
     calculateTokens = (\<lambda>s split scale adjust.
        if fst s = [] then []
        else [[[\<lparr> content = TextContent (fst s), tags = [], style = snd s, bounds = exampleBounds,
                   fontProperties = exampleFontProperties, textDecorations = Absent \<rparr>]]]),
     removeTags = stripTags False,
     getStyleForTagExt = (\<lambda>tag styles attributes. obj_get styles tag),
     capitalize = (\<lambda>s. case s of [] \<Rightarrow> [] | c # cs \<Rightarrow> char_toUpperCase c # cs),
     fontSizeStringToNumber = (\<lambda>s. NaN),
     convertUnsupportedAlignment = (\<lambda>a. a),
     isNotWhitespaceToken = (\<lambda>t. case content t of
        TextContent c \<Rightarrow> \<not> (c \<noteq> [] \<and> list_all isWhiteSpaceChar c) | SpriteContent sp \<Rightarrow> True),
     isNewlineToken = (\<lambda>t. content t = TextContent [CHR 0x0A]),
     resolveSprite = (\<lambda>src. Inr src),
     numberToString = exampleNumberToString,
     styleEntries = otherKeys,
     pixiFontSize = examplePixiFontSize,
     beginFill = exampleBeginFill \<rparr>"

definition exampleTextToken :: "string \<Rightarrow> TextStyleExtended \<Rightarrow> TextSegmentToken" where
  "exampleTextToken c sty = \<lparr> content = c, tags = [], style = sty, bounds = exampleBounds,
     fontProperties = exampleFontProperties, textDecorations = Absent \<rparr>"

definition scaledStyle :: "jsnum \<Rightarrow> jsnum \<Rightarrow> TextStyleExtended" where
  "scaledStyle w h = emptyStyle\<lparr> fontScaleWidth := Val w, fontScaleHeight := Val h,
     fontSize := Val (FontSizeNumber (Fin 10)) \<rparr>"

text \<open>An instance with the example options, and a decoration of a given colour.\<close>

definition exampleInstance :: TaggedText where
  "exampleInstance = (initialInstance exampleOptions)\<lparr> tagStyles := [(''default'', emptyStyle)] \<rparr>"

definition withOverdraw :: "jsnum \<Rightarrow> TaggedText \<Rightarrow> TaggedText" where
  "withOverdraw v st = st\<lparr> options := (options st)\<lparr> overdrawDecorations := Val v \<rparr> \<rparr>"

definition exampleDecoration :: "Color \<Rightarrow> TextDecorationMetrics" where
  "exampleDecoration c = \<lparr> decoration_bounds = exampleBounds, decoration_color = c \<rparr>"

section \<open>What a pass reads\<close>

text \<open>
  Two instances agree on what an update pass reads and on what drawing never writes:
  the options, the text, the style set, the sprite templates, the tokens, the
  \<open>needsUpdate\<close> flag and the console.
\<close>

definition sameModel :: "TaggedText \<Rightarrow> TaggedText \<Rightarrow> bool" where
  "sameModel st st' =
     (options st' = options st \<and> textValue st' = textValue st \<and> tagStyles st' = tagStyles st \<and>
      spriteTemplates st' = spriteTemplates st \<and> tokens st' = tokens st \<and>
      needsUpdate st' = needsUpdate st \<and> console st' = console st)"

text \<open>
  A token that \<open>draw\<close> decorates: a text token with a non-empty list of decorations.
\<close>

definition hasDecorations :: "SegmentToken \<Rightarrow> bool" where
  "hasDecorations t =
     (isTextToken t \<and> (case textDecorations t of Val ds \<Rightarrow> ds \<noteq> [] | Undef \<Rightarrow> False | Absent \<Rightarrow> False))"

text \<open>
  The tokens that an update pass computes from the text, the style set, the options and
  the sprite templates of an instance: the three stages of \<open>update\<close> in a row.
\<close>

definition computedTokens :: "('pt, 'st) Modules \<Rightarrow> TaggedText \<Rightarrow> ParagraphToken" where
  "computedTokens M st =
     calculateTokens M
       (mapTagsToStyles M
          (fst (parseTagsNew M (textValue st) (map fst (tagStyles st)) (prop_value (wrapEmoji (options st)))))
          (tagStyles st)
          (case imgMap (options st) of Val m \<Rightarrow> Some (spriteTemplates st) | Undef \<Rightarrow> None | Absent \<Rightarrow> None))
       (prop_value (splitStyle (options st))) (prop_value (scaleIcons (options st)))
       (prop_value (adjustFontBaseline (options st)))"

text \<open>
  The exception of the debug overlay of \<open>draw\<close>: the overlay is on, there is a line of
  tokens to outline, and the style set has no \<open>default\<close> entry.
\<close>

definition debugOverlayFails :: "TaggedText \<Rightarrow> bool" where
  "debugOverlayFails st = (truthy_bool (debug (options st)) \<and> tokens st \<noteq> [] \<and> defaultStyle st = None)"

text \<open>
  Segments for the examples, an instance that holds a decorated word and a decorated
  blank, and the same instance with white space drawn.
\<close>

definition exampleSegment :: "string \<Rightarrow> TextDecorationMetrics list jsprop \<Rightarrow> SegmentToken" where
  "exampleSegment c ds = \<lparr> content = TextContent c, tags = [], style = emptyStyle, bounds = exampleBounds,
     fontProperties = exampleFontProperties, textDecorations = ds \<rparr>"




section \<open>What the loop of draw does\<close>

text \<open>
  The colour that \<open>createDrawingForTextDecoration\<close> hands to \<open>beginFill\<close>, and the
  instance at that point.
\<close>

definition fillColorOf :: "TextDecorationMetrics \<Rightarrow> Color" where
  "fillColorOf d =
     (case decoration_color d of
        ColorString c \<Rightarrow>
          (if take 1 c = ''#'' then ColorNumber (js_parseInt16 (''0x'' @ drop 1 c)) else ColorString c)
      | ColorNumber c \<Rightarrow> ColorNumber c)"

definition afterColorCheck :: "TaggedText \<Rightarrow> TextDecorationMetrics \<Rightarrow> TaggedText" where
  "afterColorCheck st d =
     (case decoration_color d of
        ColorString c \<Rightarrow>
          (if take 1 c = ''#'' then st else logWarning ''invalid-color'' invalidColorMessage st)
      | ColorNumber c \<Rightarrow> st)"

text \<open>The decorations that \<open>draw\<close> draws for a token.\<close>

definition drawnDecorations :: "SegmentToken \<Rightarrow> TextDecorationMetrics list" where
  "drawnDecorations t =
     (case content t of
        TextContent c \<Rightarrow> (case textDecorations t of Val ds \<Rightarrow> ds | Undef \<Rightarrow> [] | Absent \<Rightarrow> [])
      | SpriteContent sp \<Rightarrow> [])"

text \<open>\<open>beginFill\<close> accepts the colour of every decoration of the tokens.\<close>

definition colorsAccepted :: "('pt, 'st) Modules \<Rightarrow> SegmentToken list \<Rightarrow> bool" where
  "colorsAccepted M ts =
     list_all (\<lambda>t. list_all (\<lambda>d. beginFill M (fillColorOf d) = None) (drawnDecorations t)) ts"

text \<open>
  What the loop of \<open>draw\<close> can change, between two of its states, beside the display
  lists: it logs \<open>invalid-color\<close> warnings.
\<close>

definition paintedFrom :: "TaggedText \<Rightarrow> TaggedText \<Rightarrow> bool" where
  "paintedFrom st st' =
     (sameModel st st' \<and> debugContainer st' = debugContainer st \<and> needsDraw st' = needsDraw st \<and>
      (\<exists>ws. warnings st' = warnings st @ ws \<and> list_all (\<lambda>w. fst w = ''invalid-color'') ws))"

section \<open>The instances that the interface reaches\<close>



section \<open>Properties\<close>

subsection \<open>The imported functions of the examples\<close>

lemma exampleModules_capitalize:
  "capitalize exampleModules s = (case s of [] \<Rightarrow> [] | c # cs \<Rightarrow> char_toUpperCase c # cs)"
  by (simp add: exampleModules_def)

lemma exampleModules_pixiFontSize: "pixiFontSize exampleModules = examplePixiFontSize"
  by (simp add: exampleModules_def)

lemma exampleModules_beginFill: "beginFill exampleModules = exampleBeginFill"
  by (simp add: exampleModules_def)

subsection \<open>Numbers\<close>

lemma js_lt_total: "\<not> js_isNaN a \<Longrightarrow> \<not> js_isNaN b \<Longrightarrow> js_lt a b \<or> js_lt b a \<or> a = b"
  by (cases a; cases b) auto

lemma js_lt_asym: "js_lt a b \<Longrightarrow> \<not> js_lt b a"
  by (cases a; cases b) auto

lemma js_lt_irrefl: "\<not> js_lt a a"
  by (cases a) auto

lemma clampFontScale_not_NaN: "\<not> js_isNaN (clampFontScale v)"
  by (cases v) (simp_all add: clampFontScale_def)

subsection \<open>Scale normalisation\<close>

text \<open>
  C1: let \<open>w\<close> and \<open>h\<close> be the clamped scale factors of the style of a text token (each
  factor defaults to \<open>1\<close>). When the larger of the two is greater than \<open>1\<close>, the text
  field that \<open>createTextFieldForToken\<close> returns has scale \<open>1\<close> on the axis of the larger
  factor (the height when they are equal) and the smaller factor divided by the larger
  on the other axis, and its font size is the font size that the style of the new text
  field holds, as the graphics library keeps it for the font size of the token's style
  (a string being converted, a missing one counting as \<open>0\<close>), multiplied by the larger
  factor.
\<close>

theorem createTextFieldForToken_normalizes_scale:
  assumes w: "w = clampFontScale (prop_default (Fin 1) (fontScaleWidth (style token)))"
      and h: "h = clampFontScale (prop_default (Fin 1) (fontScaleHeight (style token)))"
      and big: "js_gt (js_max w h) (Fin 1)"
  shows "(js_ge h w \<longrightarrow>
            scale_y (createTextFieldForToken M token) = Fin 1 \<and>
            scale_x (createTextFieldForToken M token) = js_div w h) \<and>
         (js_lt h w \<longrightarrow>
            scale_x (createTextFieldForToken M token) = Fin 1 \<and>
            scale_y (createTextFieldForToken M token) = js_div h w) \<and>
         fontSize (field_style (createTextFieldForToken M token)) =
           Val (FontSizeNumber (js_mul
             (case prop_default (FontSizeNumber (Fin 0))
                     (pixiFontSize M (prop_value (fontSize (style token)))) of
                FontSizeString fs \<Rightarrow> fontSizeStringToNumber M fs
              | FontSizeNumber fs \<Rightarrow> fs)
             (js_max w h)))"
proof -
  have nw: "\<not> js_isNaN w" and nh: "\<not> js_isNaN h"
    using w h by (simp_all add: clampFontScale_not_NaN)
  show ?thesis
  proof (cases "js_lt h w")
    case True
    then have m: "js_max w h = w" "\<not> js_eq w h" "\<not> js_ge h w"
      using nw nh js_lt_asym[of h w] js_lt_irrefl[of w]
      by (auto simp: js_max_def js_eq_def js_ge_def)
    show ?thesis
      using big True m w h
      by (simp add: createTextFieldForToken_def Let_def createTextField_def)
  next
    case False
    then have m: "js_max w h = h" "js_eq h h" "js_ge h w"
      using nw nh js_lt_total[of w h]
      by (auto simp: js_max_def js_eq_def js_ge_def)
    show ?thesis
      using big False m w h
      by (simp add: createTextFieldForToken_def Let_def createTextField_def)
  qed
qed

text \<open>
  The scale factors \<open>(2, 1)\<close> give the scales \<open>(1, 1/2)\<close> and double the font size; the
  factors \<open>(1, 3)\<close> give the scales \<open>(1/3, 1)\<close> and triple it. With the graphics library
  of the examples, a style without font size gives a text field of size \<open>26\<close>, which the
  factors \<open>(2, 1)\<close> turn into \<open>52\<close>.
\<close>

theorem createTextFieldForToken_normalizes_scale_witness:
  "scale_x (createTextFieldForToken exampleModules (exampleTextToken ''abc'' (scaledStyle (Fin 2) (Fin 1)))) = Fin 1 \<and>
   scale_y (createTextFieldForToken exampleModules (exampleTextToken ''abc'' (scaledStyle (Fin 2) (Fin 1)))) = Fin (1 / 2) \<and>
   fontSize (field_style (createTextFieldForToken exampleModules (exampleTextToken ''abc'' (scaledStyle (Fin 2) (Fin 1)))))
     = Val (FontSizeNumber (Fin 20)) \<and>
   scale_x (createTextFieldForToken exampleModules (exampleTextToken ''abc'' (scaledStyle (Fin 1) (Fin 3)))) = Fin (1 / 3) \<and>
   scale_y (createTextFieldForToken exampleModules (exampleTextToken ''abc'' (scaledStyle (Fin 1) (Fin 3)))) = Fin 1 \<and>
   fontSize (field_style (createTextFieldForToken exampleModules (exampleTextToken ''abc'' (scaledStyle (Fin 1) (Fin 3)))))
     = Val (FontSizeNumber (Fin 30)) \<and>
   fontSize (field_style (createTextFieldForToken exampleModules
      (exampleTextToken ''abc'' ((scaledStyle (Fin 2) (Fin 1))\<lparr> fontSize := Absent \<rparr>))))
     = Val (FontSizeNumber (Fin 52))"
  using createTextFieldForToken_normalizes_scale
          [of "Fin 2" "exampleTextToken ''abc'' ((scaledStyle (Fin 2) (Fin 1))\<lparr> fontSize := Absent \<rparr>)"
              "Fin 1" exampleModules]
        createTextFieldForToken_normalizes_scale
          [of "Fin 2" "exampleTextToken ''abc'' (scaledStyle (Fin 2) (Fin 1))" "Fin 1" exampleModules]
        createTextFieldForToken_normalizes_scale
          [of "Fin 1" "exampleTextToken ''abc'' (scaledStyle (Fin 1) (Fin 3))" "Fin 3" exampleModules]
  by (simp add: exampleTextToken_def scaledStyle_def emptyStyle_def clampFontScale_def
        js_max_def js_gt_def js_ge_def js_eq_def exampleModules_pixiFontSize)

subsection \<open>Invalid scale factors\<close>

lemma clampFontScale_invalid: "js_isNaN v \<or> js_lt v (Fin 0) \<Longrightarrow> clampFontScale v = Fin 0"
  by (auto simp: clampFontScale_def)

lemma clampFontScale_zero: "clampFontScale (Fin 0) = Fin 0"
  by (simp add: clampFontScale_def)

text \<open>
  C5 (as amended): a scale factor of the style of a text token that is \<open>NaN\<close> or negative
  (negative infinity included) is replaced by \<open>0\<close> before it is applied: the text field
  has the scale, the font size and the text that it has when the style carries \<open>0\<close> for
  that factor. \<open>createTextFieldForToken\<close> is a total function that returns the text
  field only: it logs no warning and throws nothing.
\<close>

theorem createTextFieldForToken_clamps_invalid_scale:
  assumes "js_isNaN v \<or> js_lt v (Fin 0)"
  shows "clampFontScale v = Fin 0 \<and>
         scale_x (createTextFieldForToken M (token\<lparr> style := (style token)\<lparr> fontScaleWidth := Val v \<rparr> \<rparr>)) =
           scale_x (createTextFieldForToken M (token\<lparr> style := (style token)\<lparr> fontScaleWidth := Val (Fin 0) \<rparr> \<rparr>)) \<and>
         scale_y (createTextFieldForToken M (token\<lparr> style := (style token)\<lparr> fontScaleWidth := Val v \<rparr> \<rparr>)) =
           scale_y (createTextFieldForToken M (token\<lparr> style := (style token)\<lparr> fontScaleWidth := Val (Fin 0) \<rparr> \<rparr>)) \<and>
         fontSize (field_style (createTextFieldForToken M (token\<lparr> style := (style token)\<lparr> fontScaleWidth := Val v \<rparr> \<rparr>))) =
           fontSize (field_style (createTextFieldForToken M (token\<lparr> style := (style token)\<lparr> fontScaleWidth := Val (Fin 0) \<rparr> \<rparr>))) \<and>
         field_text (createTextFieldForToken M (token\<lparr> style := (style token)\<lparr> fontScaleWidth := Val v \<rparr> \<rparr>)) =
           field_text (createTextFieldForToken M (token\<lparr> style := (style token)\<lparr> fontScaleWidth := Val (Fin 0) \<rparr> \<rparr>)) \<and>
         scale_x (createTextFieldForToken M (token\<lparr> style := (style token)\<lparr> fontScaleHeight := Val v \<rparr> \<rparr>)) =
           scale_x (createTextFieldForToken M (token\<lparr> style := (style token)\<lparr> fontScaleHeight := Val (Fin 0) \<rparr> \<rparr>)) \<and>
         scale_y (createTextFieldForToken M (token\<lparr> style := (style token)\<lparr> fontScaleHeight := Val v \<rparr> \<rparr>)) =
           scale_y (createTextFieldForToken M (token\<lparr> style := (style token)\<lparr> fontScaleHeight := Val (Fin 0) \<rparr> \<rparr>)) \<and>
         fontSize (field_style (createTextFieldForToken M (token\<lparr> style := (style token)\<lparr> fontScaleHeight := Val v \<rparr> \<rparr>))) =
           fontSize (field_style (createTextFieldForToken M (token\<lparr> style := (style token)\<lparr> fontScaleHeight := Val (Fin 0) \<rparr> \<rparr>))) \<and>
         field_text (createTextFieldForToken M (token\<lparr> style := (style token)\<lparr> fontScaleHeight := Val v \<rparr> \<rparr>)) =
           field_text (createTextFieldForToken M (token\<lparr> style := (style token)\<lparr> fontScaleHeight := Val (Fin 0) \<rparr> \<rparr>))"
  using clampFontScale_invalid[OF assms] clampFontScale_zero
  by (simp add: createTextFieldForToken_def Let_def createTextField_def)

text \<open>
  With the factors \<open>(NaN, 3)\<close> the text field has the scales \<open>(0, 1)\<close> and three times
  the font size, as with \<open>(0, 3)\<close>; \<open>-2\<close> and negative infinity are clamped to \<open>0\<close> too.
\<close>

theorem createTextFieldForToken_clamps_invalid_scale_witness:
  "clampFontScale NaN = Fin 0 \<and> clampFontScale (Fin (- 2)) = Fin 0 \<and> clampFontScale NegInf = Fin 0 \<and>
   scale_x (createTextFieldForToken exampleModules
      ((exampleTextToken ''abc'' (scaledStyle (Fin 1) (Fin 3)))
         \<lparr> style := (style (exampleTextToken ''abc'' (scaledStyle (Fin 1) (Fin 3))))\<lparr> fontScaleWidth := Val NaN \<rparr> \<rparr>)) = Fin 0 \<and>
   scale_y (createTextFieldForToken exampleModules
      ((exampleTextToken ''abc'' (scaledStyle (Fin 1) (Fin 3)))
         \<lparr> style := (style (exampleTextToken ''abc'' (scaledStyle (Fin 1) (Fin 3))))\<lparr> fontScaleWidth := Val NaN \<rparr> \<rparr>)) = Fin 1 \<and>
   fontSize (field_style (createTextFieldForToken exampleModules
      ((exampleTextToken ''abc'' (scaledStyle (Fin 1) (Fin 3)))
         \<lparr> style := (style (exampleTextToken ''abc'' (scaledStyle (Fin 1) (Fin 3))))\<lparr> fontScaleWidth := Val NaN \<rparr> \<rparr>))) =
     Val (FontSizeNumber (Fin 30))"
  using createTextFieldForToken_clamps_invalid_scale
          [of NaN exampleModules "exampleTextToken ''abc'' (scaledStyle (Fin 1) (Fin 3))"]
        createTextFieldForToken_clamps_invalid_scale
          [of "Fin (- 2)" exampleModules "exampleTextToken ''abc'' (scaledStyle (Fin 1) (Fin 3))"]
        createTextFieldForToken_clamps_invalid_scale
          [of NegInf exampleModules "exampleTextToken ''abc'' (scaledStyle (Fin 1) (Fin 3))"]
  by (simp add: createTextFieldForToken_def Let_def createTextField_def
        exampleTextToken_def scaledStyle_def emptyStyle_def
        clampFontScale_def js_max_def js_gt_def js_eq_def exampleModules_pixiFontSize)

text \<open>
  C5 as stated fails for an infinite factor: positive infinity is neither \<open>NaN\<close> nor
  negative, so it is not clamped to \<open>0\<close> or \<open>1\<close>. With the factors \<open>(Infinity, 1)\<close> and
  the font size \<open>10\<close>, the text field gets the scales \<open>(1, 0)\<close> and an infinite font size.
\<close>

theorem createTextFieldForToken_keeps_infinite_scale:
  "clampFontScale PosInf = PosInf \<and> clampFontScale PosInf \<noteq> Fin 0 \<and> clampFontScale PosInf \<noteq> Fin 1 \<and>
   scale_x (createTextFieldForToken exampleModules
      (exampleTextToken ''abc'' (scaledStyle PosInf (Fin 1)))) = Fin 1 \<and>
   scale_y (createTextFieldForToken exampleModules
      (exampleTextToken ''abc'' (scaledStyle PosInf (Fin 1)))) = Fin 0 \<and>
   fontSize (field_style (createTextFieldForToken exampleModules
      (exampleTextToken ''abc'' (scaledStyle PosInf (Fin 1))))) = Val (FontSizeNumber PosInf)"
  by (simp add: createTextFieldForToken_def Let_def createTextField_def
        exampleTextToken_def scaledStyle_def emptyStyle_def
        clampFontScale_def js_max_def js_gt_def js_eq_def js_signed_inf_def exampleModules_pixiFontSize)

subsection \<open>Text transforms\<close>

text \<open>
  C9 (as amended): the text of the text field of a text token is the content of the
  token under the transform that the lower-cased \<open>textTransform\<close> key of its style
  selects (a missing key counting as the empty string): \<open>lowercase\<close> lower-cases it,
  \<open>uppercase\<close> upper-cases it, \<open>capitalize\<close> capitalises it, and a key whose lower-cased
  form is none of the three leaves the content unchanged.
\<close>

theorem createTextFieldForToken_transforms_text:
  assumes "key = toLowerCase (prop_default [] (textTransform (style token)))"
  shows "(key = ''lowercase'' \<longrightarrow>
            field_text (createTextFieldForToken M token) = toLowerCase (content token)) \<and>
         (key = ''uppercase'' \<longrightarrow>
            field_text (createTextFieldForToken M token) = toUpperCase (content token)) \<and>
         (key = ''capitalize'' \<longrightarrow>
            field_text (createTextFieldForToken M token) = capitalize M (content token)) \<and>
         (key \<noteq> ''lowercase'' \<and> key \<noteq> ''uppercase'' \<and> key \<noteq> ''capitalize'' \<longrightarrow>
            field_text (createTextFieldForToken M token) = content token)"
  using assms
  by (simp add: createTextFieldForToken_def Let_def createTextField_def)

theorem createTextFieldForToken_transforms_text_witness:
  "field_text (createTextFieldForToken exampleModules
      (exampleTextToken ''Hello World'' (emptyStyle\<lparr> textTransform := Val ''uppercase'' \<rparr>))) = ''HELLO WORLD'' \<and>
   field_text (createTextFieldForToken exampleModules
      (exampleTextToken ''Hello World'' (emptyStyle\<lparr> textTransform := Val ''lowercase'' \<rparr>))) = ''hello world'' \<and>
   field_text (createTextFieldForToken exampleModules
      (exampleTextToken ''hello world'' (emptyStyle\<lparr> textTransform := Val ''capitalize'' \<rparr>))) = ''Hello world'' \<and>
   field_text (createTextFieldForToken exampleModules
      (exampleTextToken ''Hello World'' (emptyStyle\<lparr> textTransform := Val ''normal'' \<rparr>))) = ''Hello World'' \<and>
   field_text (createTextFieldForToken exampleModules
      (exampleTextToken ''Hello World'' emptyStyle)) = ''Hello World''"
  using createTextFieldForToken_transforms_text
          [of "''uppercase''" "exampleTextToken ''Hello World'' (emptyStyle\<lparr> textTransform := Val ''uppercase'' \<rparr>)" exampleModules]
        createTextFieldForToken_transforms_text
          [of "''lowercase''" "exampleTextToken ''Hello World'' (emptyStyle\<lparr> textTransform := Val ''lowercase'' \<rparr>)" exampleModules]
        createTextFieldForToken_transforms_text
          [of "''capitalize''" "exampleTextToken ''hello world'' (emptyStyle\<lparr> textTransform := Val ''capitalize'' \<rparr>)" exampleModules]
        createTextFieldForToken_transforms_text
          [of "''normal''" "exampleTextToken ''Hello World'' (emptyStyle\<lparr> textTransform := Val ''normal'' \<rparr>)" exampleModules]
        createTextFieldForToken_transforms_text
          [of "[]" "exampleTextToken ''Hello World'' emptyStyle" exampleModules]
  by (simp add: exampleTextToken_def emptyStyle_def toLowerCase_def toUpperCase_def
        char_toLowerCase_def char_toUpperCase_def exampleModules_capitalize)

text \<open>
  C9 as stated fails for a key that differs from the three names by its case: the key
  \<open>UPPERCASE\<close> is none of \<open>lowercase\<close>, \<open>uppercase\<close> and \<open>capitalize\<close>, and the content
  \<open>abc\<close> is rendered as \<open>ABC\<close>.
\<close>

theorem createTextFieldForToken_key_case_insensitive:
  "''UPPERCASE'' \<noteq> ''uppercase'' \<and> ''UPPERCASE'' \<noteq> ''lowercase'' \<and> ''UPPERCASE'' \<noteq> ''capitalize'' \<and>
   field_text (createTextFieldForToken exampleModules
      (exampleTextToken ''abc'' (emptyStyle\<lparr> textTransform := Val ''UPPERCASE'' \<rparr>))) = ''ABC'' \<and>
   ''ABC'' \<noteq> ''abc''"
  by (simp add: createTextFieldForToken_def Let_def createTextField_def
        exampleTextToken_def emptyStyle_def toLowerCase_def toUpperCase_def
        char_toLowerCase_def char_toUpperCase_def)

lemma exampleInstance_warnings: "warnings exampleInstance = []"
  by (simp add: exampleInstance_def initialInstance_def)

subsection \<open>Creating the drawing of a decoration\<close>

text \<open>
  \<open>createDrawingForTextDecoration\<close> in two steps: the colour check, which may log, and
  the fill, which may throw.
\<close>

lemma createDrawing_cases:
  "createDrawingForTextDecoration M st d =
     (case beginFill M (fillColorOf d) of
        Some e \<Rightarrow> Inl (e, afterColorCheck st d)
      | None \<Rightarrow>
          Inr (\<lparr> fillColor = fillColorOf d,
                 rect_x = js_min (js_sub (bounds_x (decoration_bounds d))
                                     (prop_default (Fin 0) (overdrawDecorations (options st))))
                            (js_add (bounds_x (decoration_bounds d))
                               (js_div (bounds_width (decoration_bounds d)) (Fin 2))),
                 rect_y = bounds_y (decoration_bounds d),
                 rect_width = js_max (js_add (bounds_width (decoration_bounds d))
                                (js_mul (prop_default (Fin 0) (overdrawDecorations (options st))) (Fin 2)))
                                (Fin 0),
                 rect_height = bounds_height (decoration_bounds d) \<rparr>,
               afterColorCheck st d))"
  by (cases "decoration_color d")
     (simp_all add: createDrawingForTextDecoration_def Let_def fillColorOf_def afterColorCheck_def
        split: option.split)

lemma createDrawing_returns:
  "(\<exists>r. createDrawingForTextDecoration M st d = Inr r) \<longleftrightarrow> beginFill M (fillColorOf d) = None"
  by (cases "beginFill M (fillColorOf d)") (simp_all add: createDrawing_cases)

lemma createDrawing_Inr:
  assumes "createDrawingForTextDecoration M st d = Inr r"
  shows "beginFill M (fillColorOf d) = None" and "fillColor (fst r) = fillColorOf d"
    and "snd r = afterColorCheck st d"
    and "rect_width (fst r) =
           js_max (js_add (bounds_width (decoration_bounds d))
                     (js_mul (prop_default (Fin 0) (overdrawDecorations (options st))) (Fin 2))) (Fin 0)"
  using assms by (cases "beginFill M (fillColorOf d)"; auto simp: createDrawing_cases)+

lemma createDrawing_Inl:
  assumes "createDrawingForTextDecoration M st d = Inl x"
  shows "beginFill M (fillColorOf d) = Some (fst x)" and "snd x = afterColorCheck st d"
  using assms by (cases "beginFill M (fillColorOf d)"; auto simp: createDrawing_cases)+

subsection \<open>The width of a decoration\<close>

lemma js_max_zero_not_negative: "\<not> js_lt (js_max s (Fin 0)) (Fin 0)"
  by (cases s) (simp_all add: js_max_def)

lemma js_max_zero_NaN: "js_isNaN (js_max s (Fin 0)) = js_isNaN s"
  by (cases s) (simp_all add: js_max_def)

lemma js_isNaN_iff: "js_isNaN x \<longleftrightarrow> x = NaN"
  by (cases x) simp_all

lemma js_max_zero_ge: "\<not> js_isNaN s \<Longrightarrow> js_ge (js_max s (Fin 0)) (Fin 0)"
  by (cases s) (auto simp: js_max_def js_ge_def js_eq_def)

text \<open>
  C4: whenever \<open>createDrawingForTextDecoration\<close> produces a rectangle, whatever the
  metrics of the decoration and the value of \<open>overdrawDecorations\<close>, the width of the
  rectangle is never negative: it is never less than zero. In addition, with \<open>s\<close> the
  width of the bounds of the decoration plus twice the overdraw (\<open>0\<close> when the option is
  not set): the width is \<open>NaN\<close> exactly when \<open>s\<close> is, and greater than or equal to zero
  otherwise; for a finite width \<open>w\<close> and a finite overdraw \<open>v\<close>, however negative, it is
  the maximum of \<open>w + 2 v\<close> and \<open>0\<close>.
\<close>

theorem createDrawingForTextDecoration_width:
  assumes "createDrawingForTextDecoration M st d = Inr r"
    and "s = js_add (bounds_width (decoration_bounds d))
                 (js_mul (prop_default (Fin 0) (overdrawDecorations (options st))) (Fin 2))"
  shows "\<not> js_lt (rect_width (fst r)) (Fin 0) \<and>
         (js_isNaN (rect_width (fst r)) \<longleftrightarrow> js_isNaN s) \<and>
         (\<not> js_isNaN s \<longrightarrow> js_ge (rect_width (fst r)) (Fin 0)) \<and>
         (\<forall>w v. bounds_width (decoration_bounds d) = Fin w \<and>
                 prop_default (Fin 0) (overdrawDecorations (options st)) = Fin v \<longrightarrow>
                 rect_width (fst r) = Fin (max (w + v * 2) 0))"
proof -
  have w: "rect_width (fst r) = js_max s (Fin 0)"
    using createDrawing_Inr(4)[OF assms(1)] assms(2) by simp
  have "\<forall>w v. bounds_width (decoration_bounds d) = Fin w \<and>
               prop_default (Fin 0) (overdrawDecorations (options st)) = Fin v \<longrightarrow>
               js_max s (Fin 0) = Fin (max (w + v * 2) 0)"
    using assms(2) by (auto simp: js_max_def)
  then show ?thesis
    unfolding w
    using js_max_zero_not_negative[of s] js_max_zero_NaN[of s] js_max_zero_ge[of s] by simp
qed

text \<open>
  A width of \<open>30\<close> with an overdraw of \<open>-1000\<close> gives a rectangle of width \<open>0\<close>; with an
  overdraw of \<open>2\<close> the width is \<open>34\<close>; with an overdraw of \<open>NaN\<close> the width is \<open>NaN\<close>,
  which is not less than zero.
\<close>

theorem createDrawingForTextDecoration_width_witness:
  "(\<exists>r. createDrawingForTextDecoration exampleModules (withOverdraw (Fin (- 1000)) exampleInstance)
          (exampleDecoration (ColorNumber (Fin 255))) = Inr r \<and>
        rect_width (fst r) = Fin 0 \<and> \<not> js_lt (rect_width (fst r)) (Fin 0)) \<and>
   (\<exists>r. createDrawingForTextDecoration exampleModules (withOverdraw (Fin 2) exampleInstance)
          (exampleDecoration (ColorNumber (Fin 255))) = Inr r \<and>
        rect_width (fst r) = Fin 34 \<and> \<not> js_lt (rect_width (fst r)) (Fin 0)) \<and>
   (\<exists>r. createDrawingForTextDecoration exampleModules (withOverdraw NaN exampleInstance)
          (exampleDecoration (ColorNumber (Fin 255))) = Inr r \<and>
        rect_width (fst r) = NaN \<and> \<not> js_lt (rect_width (fst r)) (Fin 0))"
proof -
  have acc: "beginFill exampleModules (fillColorOf (exampleDecoration (ColorNumber (Fin 255)))) = None"
    by (simp add: exampleModules_beginFill fillColorOf_def exampleDecoration_def js_ge_def js_eq_def)
  have ov: "\<And>v. prop_default (Fin 0) (overdrawDecorations (options (withOverdraw v exampleInstance))) = v"
    by (simp add: withOverdraw_def)
  have bw: "bounds_width (decoration_bounds (exampleDecoration (ColorNumber (Fin 255)))) = Fin 30"
    by (simp add: exampleDecoration_def exampleBounds_def)
  have "\<exists>r. createDrawingForTextDecoration exampleModules (withOverdraw v exampleInstance)
          (exampleDecoration (ColorNumber (Fin 255))) = Inr r \<and>
        \<not> js_lt (rect_width (fst r)) (Fin 0) \<and>
        (js_isNaN (rect_width (fst r)) \<longleftrightarrow> js_isNaN (js_add (Fin 30) (js_mul v (Fin 2)))) \<and>
        (\<forall>w. v = Fin w \<longrightarrow> rect_width (fst r) = Fin (max (30 + w * 2) 0))" for v
  proof -
    obtain r where r: "createDrawingForTextDecoration exampleModules (withOverdraw v exampleInstance)
          (exampleDecoration (ColorNumber (Fin 255))) = Inr r"
      using createDrawing_returns acc by blast
    show ?thesis
      using createDrawingForTextDecoration_width[OF r refl] r by (simp add: ov bw)
  qed
  from this[of "Fin (- 1000)"] this[of "Fin 2"] this[of NaN]
  show ?thesis by (auto simp: js_isNaN_iff)
qed

subsection \<open>The colour of a decoration\<close>

lemma js_parseInt16_0x:
  assumes "ds \<noteq> []" "list_all (\<lambda>c. hexDigitValue c \<noteq> None) ds"
  shows "js_parseInt16 (''0x'' @ ds) = Fin (real (hexDigitsValue ds))"
proof -
  have tw: "takeWhile (\<lambda>c. hexDigitValue c \<noteq> None) ds = ds"
    using assms(2) by (simp add: list_all_iff takeWhile_eq_all_conv del: not_None_eq)
  show ?thesis
    unfolding js_parseInt16_def Let_def
    using assms(1) by (simp add: isWhiteSpaceChar_def tw del: not_None_eq)
qed

lemma fillColorOf_hex:
  "decoration_color d = ColorString c \<Longrightarrow> take 1 c = ''#'' \<Longrightarrow>
   fillColorOf d = ColorNumber (js_parseInt16 (''0x'' @ drop 1 c)) \<and> afterColorCheck st d = st"
  by (simp add: fillColorOf_def afterColorCheck_def)

lemma fillColorOf_other_string:
  "decoration_color d = ColorString c \<Longrightarrow> take 1 c \<noteq> ''#'' \<Longrightarrow>
   fillColorOf d = ColorString c \<and>
   afterColorCheck st d = st\<lparr> warnings := warnings st @ [(''invalid-color'', invalidColorMessage)] \<rparr>"
  by (simp add: fillColorOf_def afterColorCheck_def logWarning_def)

lemma fillColorOf_number:
  "decoration_color d = ColorNumber n \<Longrightarrow> fillColorOf d = ColorNumber n \<and> afterColorCheck st d = st"
  by (simp add: fillColorOf_def afterColorCheck_def)

text \<open>
  C6: the code diverges from the claim on a colour given as a string that does not begin
  with \<open>#\<close>. \<open>createDrawingForTextDecoration\<close> logs one \<open>invalid-color\<close> warning and
  corrects nothing: it hands the string itself to \<open>beginFill\<close>. The rectangle of a
  decoration of colour \<open>red\<close> is filled with the string \<open>red\<close>; for the colour
  \<open>notacolor\<close>, which \<open>beginFill\<close> refuses, the call throws after it has logged the
  warning, and draws nothing. A string that begins with \<open>#\<close> is converted with no
  warning: \<open>#66FF33\<close> becomes the number \<open>0x66FF33 = 6750003\<close>.
\<close>

theorem createDrawingForTextDecoration_unsupported_color:
  "(\<exists>r. createDrawingForTextDecoration exampleModules exampleInstance
            (exampleDecoration (ColorString ''red'')) = Inr r \<and>
         fillColor (fst r) = ColorString ''red'' \<and>
         warnings (snd r) = [(''invalid-color'', invalidColorMessage)]) \<and>
   (\<exists>st. createDrawingForTextDecoration exampleModules exampleInstance
            (exampleDecoration (ColorString ''notacolor'')) =
              Inl (Error ''Unable to convert color notacolor'', st) \<and>
         warnings st = [(''invalid-color'', invalidColorMessage)]) \<and>
   (\<exists>r. createDrawingForTextDecoration exampleModules exampleInstance
            (exampleDecoration (ColorString ''#66FF33'')) = Inr r \<and>
         fillColor (fst r) = ColorNumber (Fin 6750003) \<and> warnings (snd r) = [])"
proof (intro conjI)
  show "\<exists>r. createDrawingForTextDecoration exampleModules exampleInstance
            (exampleDecoration (ColorString ''red'')) = Inr r \<and>
         fillColor (fst r) = ColorString ''red'' \<and>
         warnings (snd r) = [(''invalid-color'', invalidColorMessage)]"
    by (simp add: createDrawing_cases fillColorOf_def afterColorCheck_def logWarning_def
          exampleDecoration_def exampleModules_beginFill exampleInstance_warnings)
  show "\<exists>st. createDrawingForTextDecoration exampleModules exampleInstance
            (exampleDecoration (ColorString ''notacolor'')) =
              Inl (Error ''Unable to convert color notacolor'', st) \<and>
         warnings st = [(''invalid-color'', invalidColorMessage)]"
    by (simp add: createDrawing_cases fillColorOf_def afterColorCheck_def logWarning_def
          exampleDecoration_def exampleModules_beginFill exampleInstance_warnings)
  have hex: "js_parseInt16 ''0x66FF33'' = Fin 6750003"
    using js_parseInt16_0x[of "''66FF33''"] by (simp add: hexDigitValue_def hexDigitsValue_def)
  show "\<exists>r. createDrawingForTextDecoration exampleModules exampleInstance
            (exampleDecoration (ColorString ''#66FF33'')) = Inr r \<and>
         fillColor (fst r) = ColorNumber (Fin 6750003) \<and> warnings (snd r) = []"
    by (simp add: createDrawing_cases fillColorOf_def afterColorCheck_def hex
          exampleDecoration_def exampleModules_beginFill exampleInstance_warnings js_ge_def js_eq_def)
qed

subsection \<open>The example instance\<close>

lemma exampleInstance_options: "options exampleInstance = exampleOptions"
  by (simp add: exampleInstance_def initialInstance_def)

lemma exampleInstance_defaultStyle: "defaultStyle exampleInstance = Some emptyStyle"
  by (simp add: exampleInstance_def defaultStyle_def)

lemma exampleInstance_quiet: "\<not> truthy_bool (debug (options exampleInstance))"
  by (simp add: exampleInstance_options exampleOptions_def)





lemma exampleSegment_drawnDecorations:
  "drawnDecorations (exampleSegment c ds) = (case ds of Val xs \<Rightarrow> xs | Undef \<Rightarrow> [] | Absent \<Rightarrow> [])"
  by (simp add: drawnDecorations_def exampleSegment_def)

lemma exampleInstance_computed:
  "computedTokens exampleModules (exampleInstance\<lparr> textValue := ''b'' \<rparr>) =
     [[[exampleSegment ''b'' Absent]]]"
  by (simp add: computedTokens_def exampleInstance_def initialInstance_def exampleModules_def
        exampleOptions_def exampleSegment_def)

subsection \<open>What drawing leaves unchanged\<close>

lemma sameModel_refl: "sameModel st st"
  by (simp add: sameModel_def)

lemma sameModel_trans: "sameModel a b \<Longrightarrow> sameModel b c \<Longrightarrow> sameModel a c"
  by (simp add: sameModel_def)

lemma sameModel_defaultStyle: "sameModel a b \<Longrightarrow> defaultStyle b = defaultStyle a"
  by (simp add: sameModel_def defaultStyle_def)

lemma sameModel_tokensFlat: "sameModel a b \<Longrightarrow> tokensFlat b = tokensFlat a"
  by (simp add: sameModel_def tokensFlat_def)

lemma renderedTokens_sameModel: "sameModel a b \<Longrightarrow> renderedTokens M b = renderedTokens M a"
  by (simp add: renderedTokens_def sameModel_def tokensFlat_def)

lemma paintedFrom_refl: "paintedFrom st st"
  by (simp add: paintedFrom_def sameModel_def)

lemma paintedFrom_trans: "paintedFrom a b \<Longrightarrow> paintedFrom b c \<Longrightarrow> paintedFrom a c"
  by (auto simp: paintedFrom_def sameModel_def)

lemma paintedFrom_sameModel: "paintedFrom a b \<Longrightarrow> sameModel a b"
  by (simp add: paintedFrom_def)

lemma afterColorCheck_painted: "paintedFrom st (afterColorCheck st d)"
  by (cases "decoration_color d")
     (simp_all add: afterColorCheck_def paintedFrom_def sameModel_def logWarning_def)

lemma mapLastTextField_painted: "paintedFrom st (mapLastTextField f st)"
  by (simp add: mapLastTextField_def paintedFrom_def sameModel_def)

lemma decorations_painted: "paintedFrom st (st\<lparr> decorations := x \<rparr>)"
  by (simp add: paintedFrom_def sameModel_def)

text \<open>
  The loop over the decorations of a token stops at the first colour that \<open>beginFill\<close>
  refuses, and otherwise completes.
\<close>

lemma drawDecorations_Inr_iff:
  "(\<exists>st'. drawDecorations M st ds = Inr st') \<longleftrightarrow> list_all (\<lambda>d. beginFill M (fillColorOf d) = None) ds"
proof (induction ds arbitrary: st)
  case Nil
  show ?case by simp
next
  case (Cons d ds)
  show ?case
  proof (cases "beginFill M (fillColorOf d)")
    case None
    then show ?thesis
      using Cons.IH by (simp add: createDrawing_cases)
  next
    case (Some e)
    then show ?thesis
      by (simp add: createDrawing_cases)
  qed
qed

lemma drawDecorations_step:
  "(\<exists>x. createDrawingForTextDecoration M st d = Inl x \<and> paintedFrom st (snd x) \<and>
         drawDecorations M st (d # ds) = Inl x) \<or>
   (\<exists>st1. paintedFrom st st1 \<and> drawDecorations M st (d # ds) = drawDecorations M st1 ds)"
proof (cases "createDrawingForTextDecoration M st d")
  case (Inl x)
  then show ?thesis
    using createDrawing_Inl(2)[OF Inl] afterColorCheck_painted[of st d] by simp
next
  case (Inr made)
  have p: "paintedFrom st (snd made)"
    using createDrawing_Inr(3)[OF Inr] afterColorCheck_painted[of st d] by simp
  have "paintedFrom st ((mapLastTextField (\<lambda>f. f\<lparr> children := children f @ [fst made] \<rparr>) (snd made))
               \<lparr> decorations := decorations (snd made) @ [fst made] \<rparr>)"
    by (rule paintedFrom_trans[OF p paintedFrom_trans[OF mapLastTextField_painted decorations_painted]])
  then show ?thesis
    using Inr by auto
qed

lemma drawDecorations_painted_Inr:
  "drawDecorations M st ds = Inr st' \<Longrightarrow> paintedFrom st st'"
proof (induction ds arbitrary: st)
  case Nil
  then show ?case by (simp add: paintedFrom_refl)
next
  case (Cons d ds)
  from drawDecorations_step[of M st d ds] Cons.prems
  obtain st1 where s: "paintedFrom st st1" "drawDecorations M st1 ds = Inr st'"
    by auto
  show ?case
    by (rule paintedFrom_trans[OF s(1) Cons.IH[OF s(2)]])
qed

lemma drawDecorations_painted_Inl:
  "drawDecorations M st ds = Inl x \<Longrightarrow> paintedFrom st (snd x)"
proof (induction ds arbitrary: st)
  case Nil
  then show ?case by simp
next
  case (Cons d ds)
  from drawDecorations_step[of M st d ds] Cons.prems
  consider "paintedFrom st (snd x)"
    | st1 where "paintedFrom st st1" "drawDecorations M st1 ds = Inl x"
    by auto
  then show ?case
  proof cases
    case 1
    then show ?thesis .
  next
    case 2
    show ?thesis
      by (rule paintedFrom_trans[OF 2(1) Cons.IH[OF 2(2)]])
  qed
qed

lemma textField_added_painted:
  "paintedFrom st (st\<lparr> textContainer := a, textFields := b \<rparr>)"
  by (simp add: paintedFrom_def sameModel_def)

lemma sprite_added_painted:
  "paintedFrom st (st\<lparr> sprites := a, spriteContainer := b, spritePositions := c \<rparr>)"
  by (simp add: paintedFrom_def sameModel_def)

lemma hasDecorations_drawn: "hasDecorations t \<longleftrightarrow> drawnDecorations t \<noteq> []"
  by (cases "content t"; cases "textDecorations t")
     (simp_all add: hasDecorations_def drawnDecorations_def isTextToken_def)

text \<open>The body of the loop of \<open>draw\<close>, for a text token and for a sprite token.\<close>

lemma drawToken_text:
  assumes "content t = TextContent c"
  shows "\<exists>added. paintedFrom (fst acc) added \<and>
           drawToken M acc t =
             (case drawDecorations M added (drawnDecorations t) of
                Inl e \<Rightarrow> Inl e
              | Inr decorated \<Rightarrow>
                  Inr (mapLastTextField (\<lambda>f. f\<lparr> position_x := bounds_x (bounds t),
                                               position_y := bounds_y (bounds t) \<rparr>) decorated,
                       snd acc \<or> hasDecorations t))"
proof -
  let ?added = "(fst acc)\<lparr> textContainer := map_option (\<lambda>cs. cs @ [createTextFieldForToken M
                    (asTextSegmentToken t c)]) (textContainer (fst acc)),
                  textFields := textFields (fst acc) @ [createTextFieldForToken M (asTextSegmentToken t c)] \<rparr>"
  have d: "(case textDecorations t of Val ds \<Rightarrow> ds | Undef \<Rightarrow> [] | Absent \<Rightarrow> []) = drawnDecorations t"
    using assms by (simp add: drawnDecorations_def)
  have p: "paintedFrom (fst acc) ?added"
    by (rule textField_added_painted)
  have e: "drawToken M acc t =
             (case drawDecorations M ?added (drawnDecorations t) of
                Inl e \<Rightarrow> Inl e
              | Inr decorated \<Rightarrow>
                  Inr (mapLastTextField (\<lambda>f. f\<lparr> position_x := bounds_x (bounds t),
                                               position_y := bounds_y (bounds t) \<rparr>) decorated,
                       snd acc \<or> hasDecorations t))"
    unfolding hasDecorations_drawn
    using assms by (simp add: drawToken_def Let_def d)
  show ?thesis
    by (rule exI[of _ ?added]) (rule conjI[OF p e])
qed

lemma drawToken_sprite:
  assumes "content t = SpriteContent sp"
  shows "\<exists>st'. paintedFrom (fst acc) st' \<and> drawToken M acc t = Inr (st', snd acc) \<and>
               drawnDecorations t = [] \<and> \<not> hasDecorations t"
  using assms sprite_added_painted
  by (auto simp: drawToken_def Let_def drawnDecorations_def hasDecorations_def isTextToken_def)

lemma drawToken_Inr_iff:
  "(\<exists>acc'. drawToken M acc t = Inr acc') \<longleftrightarrow>
   list_all (\<lambda>d. beginFill M (fillColorOf d) = None) (drawnDecorations t)"
proof (cases "content t")
  case (TextContent c)
  from drawToken_text[OF TextContent, of acc M]
  obtain added where a: "drawToken M acc t =
             (case drawDecorations M added (drawnDecorations t) of
                Inl e \<Rightarrow> Inl e
              | Inr decorated \<Rightarrow>
                  Inr (mapLastTextField (\<lambda>f. f\<lparr> position_x := bounds_x (bounds t),
                                               position_y := bounds_y (bounds t) \<rparr>) decorated,
                       snd acc \<or> hasDecorations t))"
    by blast
  show ?thesis
    unfolding a drawDecorations_Inr_iff[of M added "drawnDecorations t", symmetric]
    by (cases "drawDecorations M added (drawnDecorations t)") simp_all
next
  case (SpriteContent sp)
  from drawToken_sprite[OF SpriteContent, of acc M]
  show ?thesis by auto
qed

lemma drawToken_Inr:
  assumes "drawToken M acc t = Inr acc'"
  shows "paintedFrom (fst acc) (fst acc') \<and> snd acc' = (snd acc \<or> hasDecorations t)"
proof (cases "content t")
  case (TextContent c)
  from drawToken_text[OF TextContent, of acc M]
  obtain added where p: "paintedFrom (fst acc) added" and a: "drawToken M acc t =
             (case drawDecorations M added (drawnDecorations t) of
                Inl e \<Rightarrow> Inl e
              | Inr decorated \<Rightarrow>
                  Inr (mapLastTextField (\<lambda>f. f\<lparr> position_x := bounds_x (bounds t),
                                               position_y := bounds_y (bounds t) \<rparr>) decorated,
                       snd acc \<or> hasDecorations t))"
    by blast
  show ?thesis
  proof (cases "drawDecorations M added (drawnDecorations t)")
    case (Inl e)
    then show ?thesis using a assms by simp
  next
    case (Inr decorated)
    have "paintedFrom (fst acc) (mapLastTextField (\<lambda>f. f\<lparr> position_x := bounds_x (bounds t),
                                               position_y := bounds_y (bounds t) \<rparr>) decorated)"
      by (rule paintedFrom_trans[OF p paintedFrom_trans[OF drawDecorations_painted_Inr[OF Inr]
                mapLastTextField_painted]])
    then show ?thesis using a assms Inr by auto
  qed
next
  case (SpriteContent sp)
  from drawToken_sprite[OF SpriteContent, of acc M] assms
  show ?thesis by auto
qed

lemma drawToken_Inl:
  assumes "drawToken M acc t = Inl x"
  shows "paintedFrom (fst acc) (snd x)"
proof (cases "content t")
  case (TextContent c)
  from drawToken_text[OF TextContent, of acc M]
  obtain added where p: "paintedFrom (fst acc) added" and a: "drawToken M acc t =
             (case drawDecorations M added (drawnDecorations t) of
                Inl e \<Rightarrow> Inl e
              | Inr decorated \<Rightarrow>
                  Inr (mapLastTextField (\<lambda>f. f\<lparr> position_x := bounds_x (bounds t),
                                               position_y := bounds_y (bounds t) \<rparr>) decorated,
                       snd acc \<or> hasDecorations t))"
    by blast
  show ?thesis
  proof (cases "drawDecorations M added (drawnDecorations t)")
    case (Inl e)
    then have "e = x" using a assms by simp
    then show ?thesis
      using paintedFrom_trans[OF p drawDecorations_painted_Inl[OF Inl]] by simp
  next
    case (Inr decorated)
    then show ?thesis using a assms by simp
  qed
next
  case (SpriteContent sp)
  from drawToken_sprite[OF SpriteContent, of acc M] assms
  show ?thesis by auto
qed

text \<open>The loop of \<open>draw\<close> over the rendered tokens.\<close>

lemma drawTokens_Inr_iff:
  "(\<exists>acc'. drawTokens M acc ts = Inr acc') \<longleftrightarrow> colorsAccepted M ts"
proof (induction ts arbitrary: acc)
  case Nil
  show ?case by (simp add: colorsAccepted_def)
next
  case (Cons t ts)
  show ?case
  proof (cases "drawToken M acc t")
    case (Inl e)
    then have "\<not> list_all (\<lambda>d. beginFill M (fillColorOf d) = None) (drawnDecorations t)"
      using drawToken_Inr_iff[of M acc t] by simp
    then show ?thesis using Inl by (simp add: colorsAccepted_def)
  next
    case (Inr acc1)
    then have "list_all (\<lambda>d. beginFill M (fillColorOf d) = None) (drawnDecorations t)"
      using drawToken_Inr_iff[of M acc t] by auto
    then show ?thesis using Inr Cons.IH[of acc1] by (simp add: colorsAccepted_def)
  qed
qed

lemma drawTokens_Inr:
  "drawTokens M acc ts = Inr acc' \<Longrightarrow>
   paintedFrom (fst acc) (fst acc') \<and> snd acc' = (snd acc \<or> (\<exists>t\<in>set ts. hasDecorations t))"
proof (induction ts arbitrary: acc)
  case Nil
  then show ?case by (simp add: paintedFrom_refl)
next
  case (Cons t ts)
  show ?case
  proof (cases "drawToken M acc t")
    case (Inl e)
    then show ?thesis using Cons.prems by simp
  next
    case (Inr acc1)
    have r: "drawTokens M acc1 ts = Inr acc'" using Cons.prems Inr by simp
    show ?thesis
      using drawToken_Inr[OF Inr] Cons.IH[OF r] by (auto intro: paintedFrom_trans)
  qed
qed

lemma drawTokens_Inl:
  "drawTokens M acc ts = Inl x \<Longrightarrow> paintedFrom (fst acc) (snd x)"
proof (induction ts arbitrary: acc)
  case Nil
  then show ?case by simp
next
  case (Cons t ts)
  show ?case
  proof (cases "drawToken M acc t")
    case (Inl e)
    then have "e = x" using Cons.prems by simp
    then show ?thesis using drawToken_Inl[OF Inl] by simp
  next
    case (Inr acc1)
    have r: "drawTokens M acc1 ts = Inl x" using Cons.prems Inr by simp
    show ?thesis
      using drawToken_Inr[OF Inr] Cons.IH[OF r] by (auto intro: paintedFrom_trans)
  qed
qed

subsection \<open>The end of a drawing pass\<close>

lemma resetChildren_frame:
  "sameModel st (resetChildren st)" "warnings (resetChildren st) = warnings st"
  "needsDraw (resetChildren st) = needsDraw st"
  by (simp_all add: sameModel_def resetChildren_def)

lemma resetChildren_containers:
  "textContainer (resetChildren st) = Some []" "spriteContainer (resetChildren st) = Some []"
  "debugContainer (resetChildren st) = Some []"
  by (simp_all add: resetChildren_def)

lemma paintedFrom_debugContainer: "paintedFrom a b \<Longrightarrow> debugContainer b = debugContainer a"
  by (simp add: paintedFrom_def)

lemma debugOverlayFails_sameModel: "sameModel a b \<Longrightarrow> debugOverlayFails b = debugOverlayFails a"
  by (simp add: debugOverlayFails_def sameModel_def defaultStyle_def)

text \<open>
  The end of \<open>draw\<close>: the conflict warning is logged when white space is hidden and a
  decoration was drawn; then the debug overlay may fail, before \<open>needsDraw\<close> is cleared.
\<close>

lemma finishDraw_cases:
  assumes "debugContainer (fst drawn) = Some cs"
    and "conflict = (drawWhitespace (options (fst drawn)) = Val False \<and> snd drawn)"
  shows "(debugOverlayFails (fst drawn) \<longrightarrow>
            (\<exists>st'. finishDraw M drawn = Inl (wordWrapTypeError, st') \<and> sameModel (fst drawn) st' \<and>
                   needsDraw st' = needsDraw (fst drawn) \<and>
                   warnings st' = warnings (fst drawn) @
                     (if conflict then [(''text-decoration-and-whitespace'', decorationWhitespaceMessage)]
                      else []))) \<and>
         (\<not> debugOverlayFails (fst drawn) \<longrightarrow>
            (\<exists>st'. finishDraw M drawn = Inr st' \<and> sameModel (fst drawn) st' \<and> needsDraw st' = False \<and>
                   warnings st' = warnings (fst drawn) @
                     (if conflict then [(''text-decoration-and-whitespace'', decorationWhitespaceMessage)]
                      else [])))"
proof -
  let ?msg = "[(''text-decoration-and-whitespace'', decorationWhitespaceMessage)]"
  have tail: "(debugOverlayFails w \<longrightarrow>
            (\<exists>st'. R = Inl (wordWrapTypeError, st') \<and>
                   sameModel w st' \<and> needsDraw st' = needsDraw w \<and> warnings st' = warnings w)) \<and>
         (\<not> debugOverlayFails w \<longrightarrow>
            (\<exists>st'. R = Inr st' \<and>
                   sameModel w st' \<and> needsDraw st' = False \<and> warnings st' = warnings w))"
    if "debugContainer w = Some ds"
      and "R = (if truthy_bool (debug (options w))
                    then (case drawDebug M w of Inl e \<Rightarrow> Inl e
                          | Inr st' \<Rightarrow> Inr (st'\<lparr> needsDraw := False \<rparr>))
                    else Inr (w\<lparr> needsDraw := False \<rparr>))" for w ds R
    unfolding that(2)
    using that(1) by (simp add: drawDebug_def debugOverlayFails_def sameModel_def)
  show ?thesis
  proof (cases conflict)
    case True
    let ?w = "logWarning ''text-decoration-and-whitespace'' decorationWhitespaceMessage (fst drawn)"
    have f: "finishDraw M drawn =
                (if truthy_bool (debug (options ?w))
                    then (case drawDebug M ?w of Inl e \<Rightarrow> Inl e
                          | Inr st' \<Rightarrow> Inr (st'\<lparr> needsDraw := False \<rparr>))
                    else Inr (?w\<lparr> needsDraw := False \<rparr>))"
      using True assms(2) by (simp add: finishDraw_def Let_def)
    have w: "debugContainer ?w = Some cs" "sameModel (fst drawn) ?w" "needsDraw ?w = needsDraw (fst drawn)"
         "warnings ?w = warnings (fst drawn) @ ?msg"
      using assms(1) by (simp_all add: logWarning_def sameModel_def)
    have sm: "sameModel ?w st' \<Longrightarrow> sameModel (fst drawn) st'" for st'
      by (rule sameModel_trans[OF w(2)])
    have t: "(debugOverlayFails (fst drawn) \<longrightarrow>
            (\<exists>st'. finishDraw M drawn = Inl (wordWrapTypeError, st') \<and>
                   sameModel ?w st' \<and> needsDraw st' = needsDraw (fst drawn) \<and>
                   warnings st' = warnings (fst drawn) @ ?msg)) \<and>
         (\<not> debugOverlayFails (fst drawn) \<longrightarrow>
            (\<exists>st'. finishDraw M drawn = Inr st' \<and>
                   sameModel ?w st' \<and> needsDraw st' = False \<and>
                   warnings st' = warnings (fst drawn) @ ?msg))"
      using tail[OF w(1) f]
      unfolding debugOverlayFails_sameModel[OF w(2)] w(3) w(4) .
    show ?thesis
    proof (cases "debugOverlayFails (fst drawn)")
      case T: True
      with t obtain st' where "finishDraw M drawn = Inl (wordWrapTypeError, st')" "sameModel ?w st'"
          "needsDraw st' = needsDraw (fst drawn)" "warnings st' = warnings (fst drawn) @ ?msg"
        by auto
      then show ?thesis using T True sm by auto
    next
      case F: False
      with t obtain st' where "finishDraw M drawn = Inr st'" "sameModel ?w st'"
          "needsDraw st' = False" "warnings st' = warnings (fst drawn) @ ?msg"
        by auto
      then show ?thesis using F True sm by auto
    qed
  next
    case False
    have f: "finishDraw M drawn =
                (if truthy_bool (debug (options (fst drawn)))
                    then (case drawDebug M (fst drawn) of Inl e \<Rightarrow> Inl e
                          | Inr st' \<Rightarrow> Inr (st'\<lparr> needsDraw := False \<rparr>))
                    else Inr ((fst drawn)\<lparr> needsDraw := False \<rparr>))"
      unfolding finishDraw_def Let_def assms(2)[symmetric] using False by (simp only: if_False)
    show ?thesis
      using tail[OF assms(1) f] False by simp
  qed
qed

subsection \<open>A drawing pass\<close>

lemma draw_unfold:
  "draw M st =
     (case drawTokens M (resetChildren st, False) (renderedTokens M st) of
        Inl e \<Rightarrow> Inl e
      | Inr drawn \<Rightarrow> finishDraw M drawn)"
  unfolding draw_def Let_def renderedTokens_sameModel[OF resetChildren_frame(1)]
  by (simp add: resetChildren_containers)

text \<open>
  When \<open>beginFill\<close> refuses the colour of a decoration of a rendered token, \<open>draw\<close> throws
  from the loop: it has logged colour warnings only, and \<open>needsDraw\<close> is as it was.
\<close>

lemma draw_refused:
  assumes "\<not> colorsAccepted M (renderedTokens M st)"
  shows "\<exists>e st' ws. draw M st = Inl (e, st') \<and> sameModel st st' \<and> needsDraw st' = needsDraw st \<and>
           warnings st' = warnings st @ ws \<and> list_all (\<lambda>w. fst w = ''invalid-color'') ws"
proof -
  obtain x where x: "drawTokens M (resetChildren st, False) (renderedTokens M st) = Inl x"
    using drawTokens_Inr_iff[of M "(resetChildren st, False)" "renderedTokens M st"] assms
    by (cases "drawTokens M (resetChildren st, False) (renderedTokens M st)") auto
  have p: "paintedFrom (resetChildren st) (snd x)"
    using drawTokens_Inl[OF x] by simp
  then obtain ws where ws: "warnings (snd x) = warnings st @ ws" "list_all (\<lambda>w. fst w = ''invalid-color'') ws"
    by (auto simp: paintedFrom_def resetChildren_frame(2))
  have sm: "sameModel st (snd x)"
    by (rule sameModel_trans[OF resetChildren_frame(1) paintedFrom_sameModel[OF p]])
  have nd: "needsDraw (snd x) = needsDraw st"
    using p by (simp add: paintedFrom_def resetChildren_frame(3))
  have d: "draw M st = Inl (fst x, snd x)"
    using x by (simp add: draw_unfold)
  show ?thesis
    using d sm nd ws by blast
qed

text \<open>
  When \<open>beginFill\<close> accepts the colours, the loop completes and \<open>draw\<close> ends as
  \<open>finishDraw\<close> does.
\<close>

lemma draw_accepted:
  assumes "colorsAccepted M (renderedTokens M st)"
    and "conflict = (drawWhitespace (options st) = Val False \<and> (\<exists>t\<in>set (renderedTokens M st). hasDecorations t))"
  shows "\<exists>ws. list_all (\<lambda>w. fst w = ''invalid-color'') ws \<and>
           (debugOverlayFails st \<longrightarrow>
              (\<exists>st'. draw M st = Inl (wordWrapTypeError, st') \<and> sameModel st st' \<and>
                     needsDraw st' = needsDraw st \<and>
                     warnings st' = warnings st @ ws @
                       (if conflict then [(''text-decoration-and-whitespace'', decorationWhitespaceMessage)]
                        else []))) \<and>
           (\<not> debugOverlayFails st \<longrightarrow>
              (\<exists>st'. draw M st = Inr st' \<and> sameModel st st' \<and> needsDraw st' = False \<and>
                     warnings st' = warnings st @ ws @
                       (if conflict then [(''text-decoration-and-whitespace'', decorationWhitespaceMessage)]
                        else [])))"
proof -
  let ?msg = "if conflict then [(''text-decoration-and-whitespace'', decorationWhitespaceMessage)] else []"
  obtain drawn where x: "drawTokens M (resetChildren st, False) (renderedTokens M st) = Inr drawn"
    using drawTokens_Inr_iff[of M "(resetChildren st, False)" "renderedTokens M st"] assms(1) by blast
  have p: "paintedFrom (resetChildren st) (fst drawn)"
    and dr: "snd drawn = (\<exists>t\<in>set (renderedTokens M st). hasDecorations t)"
    using drawTokens_Inr[OF x] by simp_all
  obtain ws where ws: "warnings (fst drawn) = warnings st @ ws" "list_all (\<lambda>w. fst w = ''invalid-color'') ws"
    using p by (auto simp: paintedFrom_def resetChildren_frame(2))
  have sm: "sameModel st (fst drawn)"
    by (rule sameModel_trans[OF resetChildren_frame(1) paintedFrom_sameModel[OF p]])
  have nd: "needsDraw (fst drawn) = needsDraw st"
    using p by (simp add: paintedFrom_def resetChildren_frame(3))
  have dc: "debugContainer (fst drawn) = Some []"
    using paintedFrom_debugContainer[OF p] by (simp add: resetChildren_containers)
  have c: "conflict = (drawWhitespace (options (fst drawn)) = Val False \<and> snd drawn)"
    using assms(2) sm dr by (simp add: sameModel_def)
  have d: "draw M st = finishDraw M drawn"
    using x by (simp add: draw_unfold)
  have f: "(debugOverlayFails st \<longrightarrow>
            (\<exists>st'. draw M st = Inl (wordWrapTypeError, st') \<and> sameModel (fst drawn) st' \<and>
                   needsDraw st' = needsDraw st \<and> warnings st' = (warnings st @ ws) @ ?msg)) \<and>
         (\<not> debugOverlayFails st \<longrightarrow>
            (\<exists>st'. draw M st = Inr st' \<and> sameModel (fst drawn) st' \<and> needsDraw st' = False \<and>
                   warnings st' = (warnings st @ ws) @ ?msg))"
    using finishDraw_cases[OF dc c, of M]
    unfolding d[symmetric] debugOverlayFails_sameModel[OF sm] nd ws(1) .
  have t: "sameModel (fst drawn) st' \<Longrightarrow> sameModel st st'" for st'
    by (rule sameModel_trans[OF sm])
  show ?thesis
  proof (cases "debugOverlayFails st")
    case True
    with f obtain st' where "draw M st = Inl (wordWrapTypeError, st')" "sameModel (fst drawn) st'"
        "needsDraw st' = needsDraw st" "warnings st' = (warnings st @ ws) @ ?msg"
      by auto
    then show ?thesis using True ws(2) t by auto
  next
    case False
    with f obtain st' where "draw M st = Inr st'" "sameModel (fst drawn) st'"
        "needsDraw st' = False" "warnings st' = (warnings st @ ws) @ ?msg"
      by auto
    then show ?thesis using False ws(2) t by auto
  qed
qed

subsection \<open>The warning about decorations and hidden white space\<close>


lemmas example_run =
  setText_def updateIfShould_def update_def Let_def exampleInstance_def initialInstance_def
  exampleModules_def exampleOptions_def drawIfShould_def draw_def resetChildren_def renderedTokens_def
  tokensFlat_def drawToken_def finishDraw_def logWarning_def createTextFieldForToken_def
  createTextField_def mapLastTextField_def mapLast_def exampleSegment_def




subsection \<open>The update pass\<close>

lemma drawIfShould_skips:
  "\<not> (k = Some False \<or> (k = None \<and> skipDraw (options st) = Val False)) \<Longrightarrow>
   drawIfShould M k st = Inr (False, st)"
  by (cases k) (auto simp: drawIfShould_def)

lemma drawIfShould_draws:
  "k = Some False \<or> (k = None \<and> skipDraw (options st) = Val False) \<Longrightarrow>
   drawIfShould M k st = (case draw M st of Inl e \<Rightarrow> Inl e | Inr st' \<Rightarrow> Inr (True, st'))"
  by (simp add: drawIfShould_def)

text \<open>The instance that \<open>update\<close> hands to \<open>drawIfShould\<close>.\<close>

lemma update_unfold:
  "update M k st =
     (case drawIfShould M k
             (st\<lparr> warnings := warnings st @
                     snd (parseTagsNew M (textValue st) (map fst (tagStyles st)) (prop_value (wrapEmoji (options st)))),
                  tokens := computedTokens M st, needsDraw := True \<rparr>) of
        Inl e \<Rightarrow> Inl e
      | Inr r \<Rightarrow>
          Inr (computedTokens M st,
               (if truthy_bool (debugConsole (options (snd r)))
                then (snd r)\<lparr> console := console (snd r) @ [toDebugString M (snd r)] \<rparr>
                else snd r)\<lparr> needsUpdate := False \<rparr>))"
  by (simp add: update_def Let_def computedTokens_def split: sum.split)

text \<open>What an update pass reads of the instance, and what a drawing pass reads.\<close>

lemma computedTokens_cong:
  "options b = options a \<Longrightarrow> textValue b = textValue a \<Longrightarrow> tagStyles b = tagStyles a \<Longrightarrow>
   spriteTemplates b = spriteTemplates a \<Longrightarrow> computedTokens M b = computedTokens M a"
  by (simp add: computedTokens_def split: jsprop.split)

lemma renderedTokens_cong:
  "options b = options a \<Longrightarrow> tokens b = tokens a \<Longrightarrow> renderedTokens M b = renderedTokens M a"
  by (simp add: renderedTokens_def tokensFlat_def)

lemma debugOverlayFails_cong:
  "options b = options a \<Longrightarrow> tokens b = tokens a \<Longrightarrow> tagStyles b = tagStyles a \<Longrightarrow>
   debugOverlayFails b = debugOverlayFails a"
  by (simp add: debugOverlayFails_def defaultStyle_def)

text \<open>
  A drawing pass of an instance completes exactly when the colours of the rendered
  decorations are accepted and the debug overlay does not fail.
\<close>

lemma draw_outcome:
  "(colorsAccepted M (renderedTokens M st) \<and> \<not> debugOverlayFails st \<longrightarrow>
      (\<exists>st' new. draw M st = Inr st' \<and> sameModel st st' \<and> needsDraw st' = False \<and>
                 warnings st' = warnings st @ new)) \<and>
   (\<not> (colorsAccepted M (renderedTokens M st) \<and> \<not> debugOverlayFails st) \<longrightarrow>
      (\<exists>x. draw M st = Inl x))"
proof (cases "colorsAccepted M (renderedTokens M st)")
  case False
  then show ?thesis using draw_refused[OF False] by auto
next
  case True
  from draw_accepted[OF True refl]
  obtain ws where
        f: "debugOverlayFails st \<longrightarrow> (\<exists>st'. draw M st = Inl (wordWrapTypeError, st'))"
    and c: "\<not> debugOverlayFails st \<longrightarrow>
              (\<exists>st' new. draw M st = Inr st' \<and> sameModel st st' \<and> needsDraw st' = False \<and>
                     warnings st' = warnings st @ new)"
    by blast
  show ?thesis
    using True f c by (cases "debugOverlayFails st") auto
qed

text \<open>
  An update pass fails exactly when it draws and the drawing pass fails on the tokens it
  has computed; otherwise it returns these tokens and leaves them in the instance.
\<close>

lemma update_outcome_aux:
  assumes dr: "draws = (k = Some False \<or> (k = None \<and> skipDraw (options st) = Val False))"
    and pt: "paints = (colorsAccepted M (renderedTokens M (st\<lparr> tokens := computedTokens M st \<rparr>)) \<and>
                       \<not> debugOverlayFails (st\<lparr> tokens := computedTokens M st \<rparr>))"
  shows "(draws \<and> \<not> paints \<longrightarrow> (\<exists>x. update M k st = Inl x)) \<and>
         (\<not> (draws \<and> \<not> paints) \<longrightarrow>
            (\<exists>st' new. update M k st = Inr (computedTokens M st, st') \<and>
               tokens st' = computedTokens M st \<and> needsUpdate st' = False \<and>
               options st' = options st \<and> textValue st' = textValue st \<and>
               tagStyles st' = tagStyles st \<and> spriteTemplates st' = spriteTemplates st \<and>
               warnings st' = warnings st @ new))"
proof -
  define st2 where "st2 = st\<lparr> warnings := warnings st @
                     snd (parseTagsNew M (textValue st) (map fst (tagStyles st)) (prop_value (wrapEmoji (options st)))),
                  tokens := computedTokens M st, needsDraw := True \<rparr>"
  have u: "update M k st =
     (case drawIfShould M k st2 of
        Inl e \<Rightarrow> Inl e
      | Inr r \<Rightarrow>
          Inr (computedTokens M st,
               (if truthy_bool (debugConsole (options (snd r)))
                then (snd r)\<lparr> console := console (snd r) @ [toDebugString M (snd r)] \<rparr>
                else snd r)\<lparr> needsUpdate := False \<rparr>))"
    unfolding st2_def by (rule update_unfold)
  have s2: "options st2 = options st" "textValue st2 = textValue st" "tagStyles st2 = tagStyles st"
      "spriteTemplates st2 = spriteTemplates st" "tokens st2 = computedTokens M st"
      "\<exists>new. warnings st2 = warnings st @ new"
    by (simp_all add: st2_def)
  have r2: "renderedTokens M st2 = renderedTokens M (st\<lparr> tokens := computedTokens M st \<rparr>)"
    by (rule renderedTokens_cong) (simp_all add: s2)
  have f2: "debugOverlayFails st2 = debugOverlayFails (st\<lparr> tokens := computedTokens M st \<rparr>)"
    by (rule debugOverlayFails_cong) (simp_all add: s2)
  have p2: "paints = (colorsAccepted M (renderedTokens M st2) \<and> \<not> debugOverlayFails st2)"
    unfolding r2 f2 by (rule pt)
  have completed: "\<exists>st' new. update M k st = Inr (computedTokens M st, st') \<and>
               tokens st' = computedTokens M st \<and> needsUpdate st' = False \<and>
               options st' = options st \<and> textValue st' = textValue st \<and>
               tagStyles st' = tagStyles st \<and> spriteTemplates st' = spriteTemplates st \<and>
               warnings st' = warnings st @ new"
    if d: "drawIfShould M k st2 = Inr (b, st3)" and sm: "sameModel st2 st3"
      and w: "\<exists>new. warnings st3 = warnings st2 @ new" for b st3
  proof -
    obtain n1 n2 where n: "warnings st2 = warnings st @ n1" "warnings st3 = warnings st2 @ n2"
      using s2(6) w by blast
    have w3: "warnings st3 = warnings st @ (n1 @ n2)"
      using n by simp
    have u3: "update M k st = Inr (computedTokens M st,
               (if truthy_bool (debugConsole (options st3))
                then st3\<lparr> console := console st3 @ [toDebugString M st3] \<rparr>
                else st3)\<lparr> needsUpdate := False \<rparr>)"
      unfolding u d by simp
    show ?thesis
      unfolding u3 using sm s2(1-5) w3 by (auto simp: sameModel_def)
  qed
  show ?thesis
  proof (cases draws)
    case False
    have d: "drawIfShould M k st2 = Inr (False, st2)"
      using False dr s2(1) by (intro drawIfShould_skips) simp
    have w0: "\<exists>new. warnings st2 = warnings st2 @ new"
      by (rule exI[of _ "[]"]) simp
    show ?thesis
      using False completed[OF d sameModel_refl w0] by simp
  next
    case True
    have d: "drawIfShould M k st2 = (case draw M st2 of Inl e \<Rightarrow> Inl e | Inr st' \<Rightarrow> Inr (True, st'))"
      using True dr s2(1) by (intro drawIfShould_draws) simp
    show ?thesis
    proof (cases paints)
      case P: True
      then obtain st3 new where s3: "draw M st2 = Inr st3" "sameModel st2 st3" "warnings st3 = warnings st2 @ new"
        using draw_outcome[of M st2, THEN conjunct1] p2 by blast
      have d3: "drawIfShould M k st2 = Inr (True, st3)"
        unfolding d s3(1) by simp
      have "\<exists>new. warnings st3 = warnings st2 @ new"
        using s3(3) by blast
      from completed[OF d3 s3(2) this] show ?thesis
        using P by simp
    next
      case P: False
      then obtain x where "draw M st2 = Inl x"
        using draw_outcome[of M st2, THEN conjunct2] p2 by blast
      then have "update M k st = Inl x"
        unfolding u d by simp
      then show ?thesis
        using P True by simp
    qed
  qed
qed

lemmas update_outcome = update_outcome_aux[OF refl refl]

lemma update_Inr:
  assumes "update M k st = Inr (tk, st')"
  shows "tk = computedTokens M st" and "tokens st' = tk" and "needsUpdate st' = False"
    and "options st' = options st" and "textValue st' = textValue st"
    and "tagStyles st' = tagStyles st" and "spriteTemplates st' = spriteTemplates st"
    and "\<exists>new. warnings st' = warnings st @ new"
    and "\<not> ((k = Some False \<or> (k = None \<and> skipDraw (options st) = Val False)) \<and>
           \<not> (colorsAccepted M (renderedTokens M (st\<lparr> tokens := computedTokens M st \<rparr>)) \<and>
              \<not> debugOverlayFails (st\<lparr> tokens := computedTokens M st \<rparr>)))"
proof -
  define draws where "draws = (k = Some False \<or> (k = None \<and> skipDraw (options st) = Val False))"
  define paints where "paints = (colorsAccepted M (renderedTokens M (st\<lparr> tokens := computedTokens M st \<rparr>)) \<and>
                       \<not> debugOverlayFails (st\<lparr> tokens := computedTokens M st \<rparr>))"
  note o = update_outcome_aux[OF draws_def paints_def]
  have n: "\<not> (draws \<and> \<not> paints)"
    using o assms by auto
  then obtain st2 new where r: "update M k st = Inr (computedTokens M st, st2)"
      "tokens st2 = computedTokens M st" "needsUpdate st2 = False"
      "options st2 = options st" "textValue st2 = textValue st"
      "tagStyles st2 = tagStyles st" "spriteTemplates st2 = spriteTemplates st"
      "warnings st2 = warnings st @ new"
    using o by blast
  have e: "tk = computedTokens M st" "st' = st2"
    using r(1) assms by simp_all
  show "tk = computedTokens M st" by (rule e(1))
  show "tokens st' = tk" using r(2) e by simp
  show "needsUpdate st' = False" using r(3) e by simp
  show "options st' = options st" using r(4) e by simp
  show "textValue st' = textValue st" using r(5) e by simp
  show "tagStyles st' = tagStyles st" using r(6) e by simp
  show "spriteTemplates st' = spriteTemplates st" using r(7) e by simp
  show "\<exists>new. warnings st' = warnings st @ new" using r(8) e by blast
  show "\<not> ((k = Some False \<or> (k = None \<and> skipDraw (options st) = Val False)) \<and>
           \<not> (colorsAccepted M (renderedTokens M (st\<lparr> tokens := computedTokens M st \<rparr>)) \<and>
              \<not> debugOverlayFails (st\<lparr> tokens := computedTokens M st \<rparr>)))"
    using n unfolding draws_def paints_def .
qed

text \<open>
  C2: when a call of \<open>update\<close> completes and returns a token tree, a second call on
  the instance it leaves, with nothing changed in between, completes and returns the
  same tree (so the same tags, styles, order of segments and bounds); whatever the
  \<open>skipDraw\<close> argument of the second call, it cannot return another tree. The three
  stages of the pass are parameters: functions of their arguments, which is what stable
  font measurement means here.
\<close>

theorem update_idempotent:
  assumes "update M k st = Inr (tk, st1)"
  shows "tokens st1 = tk \<and>
         (\<exists>st2. update M k st1 = Inr (tk, st2) \<and> tokens st2 = tk) \<and>
         (\<forall>k2 t2 st2. update M k2 st1 = Inr (t2, st2) \<longrightarrow> t2 = tk)"
proof -
  note u = update_Inr[OF assms]
  have same: "computedTokens M st1 = computedTokens M st"
    using u(4-7) by (intro computedTokens_cong) simp_all
  have r: "renderedTokens M (st1\<lparr> tokens := computedTokens M st1 \<rparr>) =
           renderedTokens M (st\<lparr> tokens := computedTokens M st \<rparr>)"
    using u(4) same by (intro renderedTokens_cong) simp_all
  have f: "debugOverlayFails (st1\<lparr> tokens := computedTokens M st1 \<rparr>) =
           debugOverlayFails (st\<lparr> tokens := computedTokens M st \<rparr>)"
    using u(4,6) same by (intro debugOverlayFails_cong) simp_all
  have ok: "\<not> ((k = Some False \<or> (k = None \<and> skipDraw (options st1) = Val False)) \<and>
           \<not> (colorsAccepted M (renderedTokens M (st1\<lparr> tokens := computedTokens M st1 \<rparr>)) \<and>
              \<not> debugOverlayFails (st1\<lparr> tokens := computedTokens M st1 \<rparr>)))"
    unfolding r f u(4) by (rule u(9))
  obtain st2 where s2: "update M k st1 = Inr (computedTokens M st1, st2)" "tokens st2 = computedTokens M st1"
    using update_outcome[of k st1 M, THEN conjunct2, THEN mp, OF ok] by blast
  have again: "\<exists>st2. update M k st1 = Inr (tk, st2) \<and> tokens st2 = tk"
    using s2 same u(1) by auto
  have any: "t2 = tk" if "update M k2 st1 = Inr (t2, st2)" for k2 t2 st2
    using update_Inr(1)[OF that] same u(1) by simp
  show ?thesis
    using u(2) again any by blast
qed

text \<open>Two passes on the example instance with the text \<open>b\<close> return the same tree.\<close>

theorem update_idempotent_witness:
  "\<exists>st1 st2. update exampleModules None (exampleInstance\<lparr> textValue := ''b'' \<rparr>) =
                 Inr ([[[exampleSegment ''b'' Absent]]], st1) \<and>
              update exampleModules None st1 = Inr ([[[exampleSegment ''b'' Absent]]], st2) \<and>
              tokens st1 = [[[exampleSegment ''b'' Absent]]] \<and>
              tokens st2 = [[[exampleSegment ''b'' Absent]]]"
proof -
  let ?S = "exampleInstance\<lparr> textValue := ''b'' \<rparr>"
  have rt: "renderedTokens exampleModules (?S\<lparr> tokens := [[[exampleSegment ''b'' Absent]]] \<rparr>) =
              [exampleSegment ''b'' Absent]"
    by (simp add: renderedTokens_def exampleInstance_options exampleOptions_def
        tokensFlat_def exampleModules_def exampleSegment_def isWhiteSpaceChar_def)
  have ok: "\<not> ((None = Some False \<or> ((None :: bool option) = None \<and> skipDraw (options ?S) = Val False)) \<and>
           \<not> (colorsAccepted exampleModules (renderedTokens exampleModules (?S\<lparr> tokens := computedTokens exampleModules ?S \<rparr>)) \<and>
              \<not> debugOverlayFails (?S\<lparr> tokens := computedTokens exampleModules ?S \<rparr>)))"
    unfolding exampleInstance_computed rt
    by (simp add: colorsAccepted_def exampleSegment_drawnDecorations debugOverlayFails_def
          exampleInstance_options exampleOptions_def)
  obtain st1 where u: "update exampleModules None ?S = Inr ([[[exampleSegment ''b'' Absent]]], st1)"
    using update_outcome[of None ?S exampleModules, THEN conjunct2, THEN mp, OF ok]
    unfolding exampleInstance_computed by blast
  show ?thesis
    using update_idempotent[OF u] u by blast
qed

subsection \<open>Setting the text\<close>

lemma updateIfShould_skips:
  "\<not> (k = Some False \<or> (k = None \<and> skipUpdates (options st) = Val False)) \<Longrightarrow>
   updateIfShould M k st = Inr (False, st)"
  by (cases k) (auto simp: updateIfShould_def)

lemma updateIfShould_runs:
  "k = Some False \<or> (k = None \<and> skipUpdates (options st) = Val False) \<Longrightarrow>
   updateIfShould M k st = (case update M None st of Inl e \<Rightarrow> Inl e | Inr r \<Rightarrow> Inr (True, snd r))"
  by (simp add: updateIfShould_def)

text \<open>What a completed \<open>updateIfShould\<close> leaves when it ran the update.\<close>

lemma updateIfShould_ran:
  assumes run: "k = Some False \<or> (k = None \<and> skipUpdates (options st) = Val False)"
      and res: "updateIfShould M k st = Inr (b, st')"
  shows "b" and "needsUpdate st' = False" and "tokens st' = computedTokens M st"
    and "options st' = options st" and "textValue st' = textValue st"
    and "tagStyles st' = tagStyles st" and "spriteTemplates st' = spriteTemplates st"
    and "\<exists>new. warnings st' = warnings st @ new"
proof -
  have "(case update M None st of Inl e \<Rightarrow> Inl e | Inr r \<Rightarrow> Inr (True, snd r)) = Inr (b, st')"
    using updateIfShould_runs[OF run, of M] res by simp
  then obtain tk where u: "update M None st = Inr (tk, st')" and b: "b = True"
    by (cases "update M None st") auto
  note f = update_Inr[OF u]
  show "b" using b by simp
  show "needsUpdate st' = False" by (rule f(3))
  show "tokens st' = computedTokens M st" using f(1,2) by simp
  show "options st' = options st" by (rule f(4))
  show "textValue st' = textValue st" by (rule f(5))
  show "tagStyles st' = tagStyles st" by (rule f(6))
  show "spriteTemplates st' = spriteTemplates st" by (rule f(7))
  show "\<exists>new. warnings st' = warnings st @ new" by (rule f(8))
qed

lemma updateIfShould_skipped:
  assumes skip: "\<not> (k = Some False \<or> (k = None \<and> skipUpdates (options st) = Val False))"
      and res: "updateIfShould M k st = Inr (b, st')"
  shows "\<not> b" and "st' = st"
  using updateIfShould_skips[OF skip, of M] res by simp_all

text \<open>
  \<open>updateIfShould\<close> fails exactly when it runs the update pass, the pass draws, and the
  drawing pass fails on the computed tokens.
\<close>

lemma updateIfShould_outcome:
  "(\<exists>r. updateIfShould M k st = Inr r) \<longleftrightarrow>
   \<not> ((k = Some False \<or> (k = None \<and> skipUpdates (options st) = Val False)) \<and>
      skipDraw (options st) = Val False \<and>
      \<not> (colorsAccepted M (renderedTokens M (st\<lparr> tokens := computedTokens M st \<rparr>)) \<and>
         \<not> debugOverlayFails (st\<lparr> tokens := computedTokens M st \<rparr>)))"
proof (cases "k = Some False \<or> (k = None \<and> skipUpdates (options st) = Val False)")
  case False
  show ?thesis
    unfolding updateIfShould_skips[OF False, of M] using False by auto
next
  case True
  define bad where "bad = (((None :: bool option) = Some False \<or>
        ((None :: bool option) = None \<and> skipDraw (options st) = Val False)) \<and>
      \<not> (colorsAccepted M (renderedTokens M (st\<lparr> tokens := computedTokens M st \<rparr>)) \<and>
         \<not> debugOverlayFails (st\<lparr> tokens := computedTokens M st \<rparr>)))"
  have o: "(bad \<longrightarrow> (\<exists>x. update M None st = Inl x)) \<and>
           (\<not> bad \<longrightarrow> (\<exists>st'. update M None st = Inr (computedTokens M st, st')))"
    using update_outcome[of None st M] unfolding bad_def by blast
  have "(\<exists>r. updateIfShould M k st = Inr r) \<longleftrightarrow> \<not> bad"
    unfolding updateIfShould_runs[OF True, of M]
    using o by (cases bad) auto
  then show ?thesis
    using True unfolding bad_def by simp
qed

text \<open>
  C10 (as amended): \<open>setText t\<close> returns the instance unchanged, running no pass, when
  \<open>t\<close> is the current text and \<open>needsUpdate\<close> is false. In every other case a completed
  call has stored the text; it leaves \<open>needsUpdate\<close> true exactly when no update pass
  ran (\<open>skipUpdate\<close> is \<open>true\<close>, or it is not given and the option \<open>skipUpdates\<close> is not
  \<open>false\<close>), the instance being otherwise unchanged, and leaves it false after the update
  pass, with the tokens of the new text. The call fails exactly when the update pass
  runs, the option \<open>skipDraw\<close> is \<open>false\<close>, and the drawing pass fails on the tokens of the
  new text: \<open>beginFill\<close> refuses the colour of a rendered decoration, or the debug overlay
  fails.
\<close>

theorem setText_effect:
  "(t = textValue st \<and> \<not> needsUpdate st \<longrightarrow> setText M t k st = Inr st) \<and>
   (\<not> (t = textValue st \<and> \<not> needsUpdate st) \<longrightarrow>
      (\<forall>st'. setText M t k st = Inr st' \<longrightarrow>
         textValue st' = t \<and>
         needsUpdate st' = (\<not> (k = Some False \<or> (k = None \<and> skipUpdates (options st) = Val False))) \<and>
         (needsUpdate st' \<longrightarrow> st' = st\<lparr> textValue := t, needsUpdate := True \<rparr>) \<and>
         (\<not> needsUpdate st' \<longrightarrow> tokens st' = computedTokens M (st\<lparr> textValue := t \<rparr>))) \<and>
      ((\<exists>st'. setText M t k st = Inr st') \<longleftrightarrow>
         \<not> ((k = Some False \<or> (k = None \<and> skipUpdates (options st) = Val False)) \<and>
            skipDraw (options st) = Val False \<and>
            \<not> (colorsAccepted M (renderedTokens M (st\<lparr> tokens := computedTokens M (st\<lparr> textValue := t \<rparr>) \<rparr>)) \<and>
               \<not> debugOverlayFails (st\<lparr> tokens := computedTokens M (st\<lparr> textValue := t \<rparr>) \<rparr>)))))"
proof -
  let ?st1 = "st\<lparr> textValue := t, needsUpdate := True \<rparr>"
  let ?run = "k = Some False \<or> (k = None \<and> skipUpdates (options st) = Val False)"
  let ?S = "st\<lparr> tokens := computedTokens M (st\<lparr> textValue := t \<rparr>) \<rparr>"
  have noop: "t = textValue st \<and> \<not> needsUpdate st \<Longrightarrow> setText M t k st = Inr st"
    by (simp add: setText_def)
  have other: "setText M t k st =
      (case updateIfShould M k ?st1 of Inl e \<Rightarrow> Inl e | Inr r \<Rightarrow> Inr (snd r))"
    if "\<not> (t = textValue st \<and> \<not> needsUpdate st)"
    using that by (auto simp: setText_def)
  have c: "computedTokens M ?st1 = computedTokens M (st\<lparr> textValue := t \<rparr>)"
    by (intro computedTokens_cong) simp_all
  have post: "textValue st' = t \<and> needsUpdate st' = (\<not> ?run) \<and>
         (needsUpdate st' \<longrightarrow> st' = ?st1) \<and>
         (\<not> needsUpdate st' \<longrightarrow> tokens st' = computedTokens M (st\<lparr> textValue := t \<rparr>))"
    if n: "\<not> (t = textValue st \<and> \<not> needsUpdate st)" and r: "setText M t k st = Inr st'" for st'
  proof -
    have "(case updateIfShould M k ?st1 of Inl e \<Rightarrow> Inl e | Inr r \<Rightarrow> Inr (snd r)) = Inr st'"
      using other[OF n] r by simp
    then obtain r where ur: "updateIfShould M k ?st1 = Inr r" and sr: "snd r = st'"
      by (cases "updateIfShould M k ?st1") simp_all
    have u: "updateIfShould M k ?st1 = Inr (fst r, st')"
      unfolding ur sr[symmetric] by simp
    show ?thesis
    proof (cases ?run)
      case True
      then have run1: "k = Some False \<or> (k = None \<and> skipUpdates (options ?st1) = Val False)"
        by simp
      have "needsUpdate st' = False" "tokens st' = computedTokens M ?st1" "textValue st' = textValue ?st1"
        by (rule updateIfShould_ran[OF run1 u])+
      then show ?thesis
        using True c by simp
    next
      case False
      then have skip1: "\<not> (k = Some False \<or> (k = None \<and> skipUpdates (options ?st1) = Val False))"
        by simp
      have "st' = ?st1"
        by (rule updateIfShould_skipped[OF skip1 u])
      then show ?thesis
        using False by simp
    qed
  qed
  have total: "(\<exists>st'. setText M t k st = Inr st') \<longleftrightarrow>
         \<not> (?run \<and> skipDraw (options st) = Val False \<and>
            \<not> (colorsAccepted M (renderedTokens M ?S) \<and> \<not> debugOverlayFails ?S))"
    if n: "\<not> (t = textValue st \<and> \<not> needsUpdate st)"
  proof -
    have r: "renderedTokens M (?st1\<lparr> tokens := computedTokens M ?st1 \<rparr>) = renderedTokens M ?S"
      using c by (intro renderedTokens_cong) simp_all
    have f: "debugOverlayFails (?st1\<lparr> tokens := computedTokens M ?st1 \<rparr>) = debugOverlayFails ?S"
      using c by (intro debugOverlayFails_cong) simp_all
    have o: "options ?st1 = options st"
      by simp
    have e: "(\<exists>st'. setText M t k st = Inr st') \<longleftrightarrow> (\<exists>r. updateIfShould M k ?st1 = Inr r)"
      unfolding other[OF n] by (cases "updateIfShould M k ?st1") simp_all
    show ?thesis
      unfolding e updateIfShould_outcome[of M k ?st1] r f o ..
  qed
  show ?thesis
    using noop post total by blast
qed

text \<open>
  On the example instance: setting the empty text again when nothing is pending changes
  nothing; setting \<open>b\<close> with \<open>skipUpdate = true\<close> stores it and leaves \<open>needsUpdate\<close>
  true; setting \<open>b\<close> with the default runs the pass.
\<close>

theorem setText_effect_witness:
  "setText exampleModules [] None (exampleInstance\<lparr> needsUpdate := False \<rparr>) =
     Inr (exampleInstance\<lparr> needsUpdate := False \<rparr>) \<and>
   setText exampleModules ''b'' (Some True) exampleInstance =
     Inr (exampleInstance\<lparr> textValue := ''b'', needsUpdate := True \<rparr>) \<and>
   (\<exists>st'. setText exampleModules ''b'' None exampleInstance = Inr st' \<and> textValue st' = ''b'' \<and>
          \<not> needsUpdate st' \<and>
          tokens st' = computedTokens exampleModules (exampleInstance\<lparr> textValue := ''b'' \<rparr>))"
proof -
  have a: "[] = textValue (exampleInstance\<lparr> needsUpdate := False \<rparr>) \<and>
           \<not> needsUpdate (exampleInstance\<lparr> needsUpdate := False \<rparr>)"
    by (simp add: exampleInstance_def initialInstance_def)
  have b: "\<not> (''b'' = textValue exampleInstance \<and> \<not> needsUpdate exampleInstance)"
    by (simp add: exampleInstance_def initialInstance_def)
  have s: "skipUpdates (options exampleInstance) = Val False"
    by (simp add: exampleInstance_options exampleOptions_def)
  have rt: "renderedTokens exampleModules (exampleInstance\<lparr> tokens := [[[exampleSegment ''b'' Absent]]] \<rparr>) =
              [exampleSegment ''b'' Absent]"
    by (simp add: renderedTokens_def exampleInstance_options exampleOptions_def
        tokensFlat_def exampleModules_def exampleSegment_def isWhiteSpaceChar_def)
  have q2: "\<not> ((Some True = Some False \<or> (Some True = None \<and> skipUpdates (options exampleInstance) = Val False)) \<and>
            skipDraw (options exampleInstance) = Val False \<and>
            \<not> (colorsAccepted exampleModules (renderedTokens exampleModules
                  (exampleInstance\<lparr> tokens := computedTokens exampleModules (exampleInstance\<lparr> textValue := ''b'' \<rparr>) \<rparr>)) \<and>
               \<not> debugOverlayFails
                  (exampleInstance\<lparr> tokens := computedTokens exampleModules (exampleInstance\<lparr> textValue := ''b'' \<rparr>) \<rparr>)))"
    by simp
  have q3: "\<not> ((None = Some False \<or> ((None :: bool option) = None \<and> skipUpdates (options exampleInstance) = Val False)) \<and>
            skipDraw (options exampleInstance) = Val False \<and>
            \<not> (colorsAccepted exampleModules (renderedTokens exampleModules
                  (exampleInstance\<lparr> tokens := computedTokens exampleModules (exampleInstance\<lparr> textValue := ''b'' \<rparr>) \<rparr>)) \<and>
               \<not> debugOverlayFails
                  (exampleInstance\<lparr> tokens := computedTokens exampleModules (exampleInstance\<lparr> textValue := ''b'' \<rparr>) \<rparr>)))"
    unfolding exampleInstance_computed rt
    by (simp add: colorsAccepted_def exampleSegment_drawnDecorations debugOverlayFails_def
          exampleInstance_options exampleOptions_def)
  note noop = setText_effect [of "[]" "exampleInstance\<lparr> needsUpdate := False \<rparr>" exampleModules None,
                   THEN conjunct1, THEN mp, OF a]
  note skipped = setText_effect [of "''b''" exampleInstance exampleModules "Some True",
                   THEN conjunct2, THEN mp, OF b]
  note ran = setText_effect [of "''b''" exampleInstance exampleModules None,
                   THEN conjunct2, THEN mp, OF b]
  obtain st2 where r2: "setText exampleModules ''b'' (Some True) exampleInstance = Inr st2"
    using skipped[THEN conjunct2, THEN iffD2, OF q2] ..
  have p2: "textValue st2 = ''b'' \<and>
         needsUpdate st2 = (\<not> (Some True = Some False \<or> (Some True = None \<and> skipUpdates (options exampleInstance) = Val False))) \<and>
         (needsUpdate st2 \<longrightarrow> st2 = exampleInstance\<lparr> textValue := ''b'', needsUpdate := True \<rparr>) \<and>
         (\<not> needsUpdate st2 \<longrightarrow> tokens st2 = computedTokens exampleModules (exampleInstance\<lparr> textValue := ''b'' \<rparr>))"
    using skipped[THEN conjunct1, THEN spec, THEN mp, OF r2] .
  then have e2: "st2 = exampleInstance\<lparr> textValue := ''b'', needsUpdate := True \<rparr>"
    by simp
  obtain st3 where r3: "setText exampleModules ''b'' None exampleInstance = Inr st3"
    using ran[THEN conjunct2, THEN iffD2, OF q3] ..
  have p3: "textValue st3 = ''b'' \<and>
         needsUpdate st3 = (\<not> (None = Some False \<or> ((None :: bool option) = None \<and> skipUpdates (options exampleInstance) = Val False))) \<and>
         (needsUpdate st3 \<longrightarrow> st3 = exampleInstance\<lparr> textValue := ''b'', needsUpdate := True \<rparr>) \<and>
         (\<not> needsUpdate st3 \<longrightarrow> tokens st3 = computedTokens exampleModules (exampleInstance\<lparr> textValue := ''b'' \<rparr>))"
    using ran[THEN conjunct1, THEN spec, THEN mp, OF r3] .
  then have e3: "textValue st3 = ''b''" "\<not> needsUpdate st3"
      "tokens st3 = computedTokens exampleModules (exampleInstance\<lparr> textValue := ''b'' \<rparr>)"
    using s by simp_all
  show ?thesis
  proof (intro conjI)
    show "setText exampleModules [] None (exampleInstance\<lparr> needsUpdate := False \<rparr>) =
            Inr (exampleInstance\<lparr> needsUpdate := False \<rparr>)" by (rule noop)
    show "setText exampleModules ''b'' (Some True) exampleInstance =
            Inr (exampleInstance\<lparr> textValue := ''b'', needsUpdate := True \<rparr>)"
      using r2 e2 by simp
    show "\<exists>st'. setText exampleModules ''b'' None exampleInstance = Inr st' \<and> textValue st' = ''b'' \<and>
          \<not> needsUpdate st' \<and>
          tokens st' = computedTokens exampleModules (exampleInstance\<lparr> textValue := ''b'' \<rparr>)"
      using r3 e3 by (intro exI[of _ st3]) simp
  qed
qed

text \<open>
  C10 as stated fails in its last part: when the update pass runs, it clears
  \<open>needsUpdate\<close>. Setting the text \<open>b\<close> with \<open>skipUpdate = false\<close> on an instance
  whose text is empty leaves the text \<open>b\<close> and \<open>needsUpdate\<close> false.
\<close>

theorem setText_update_clears_needsUpdate:
  "(case setText exampleModules ''b'' (Some False) exampleInstance of
      Inl e \<Rightarrow> False
    | Inr st' \<Rightarrow> textValue st' = ''b'' \<and> \<not> needsUpdate st')"
  by (simp add: example_run)

subsection \<open>The debug string\<close>







subsection \<open>The image reference on the default style\<close>

lemma obj_get_set_same: "obj_get (obj_set k v m) k = Some v"
  by (induction m) auto

lemma obj_get_set_other: "k' \<noteq> k \<Longrightarrow> obj_get (obj_set k v m) k' = obj_get m k'"
  by (induction m) auto



lemma updateIfShould_skip_completes: "updateIfShould M (Some True) st = Inr (False, st)"
  by (simp add: updateIfShould_def)


text \<open>
  \<open>setStyleForTag\<close> up to the update: the instance that it hands to \<open>updateIfShould\<close>.
\<close>

lemma setStyleForTag_unfold:
  "\<exists>st2. setStyleForTag M tag sty k st =
            (case updateIfShould M k st2 of Inl e \<Rightarrow> Inl e | Inr r \<Rightarrow> Inr (True, snd r)) \<and>
         (tag = DEFAULT_KEY \<longrightarrow>
            defaultStyle st2 = Some (if truthy_string (imgSrc sty) then sty\<lparr> imgSrc := Undef \<rparr> else sty) \<and>
            warnings st2 = warnings st @
              (if truthy_string (imgSrc sty)
               then [(IMG_REFERENCE_PROPERTY M @ ''-on-default'', imgOnDefaultMessage M)] else [])) \<and>
         (tag \<noteq> DEFAULT_KEY \<longrightarrow> defaultStyle st2 = defaultStyle st \<and> warnings st2 = warnings st)"
proof (cases "tag = DEFAULT_KEY")
  case True
  have d: "defaultStyle (st\<lparr> tagStyles := obj_set tag sty (tagStyles st) \<rparr>) = Some sty"
    using True by (simp add: defaultStyle_def DEFAULT_KEY_def obj_get_set_same)
  show ?thesis
  proof (cases "truthy_string (imgSrc sty)")
    case T: True
    let ?st2 = "((logWarning (IMG_REFERENCE_PROPERTY M @ ''-on-default'') (imgOnDefaultMessage M)
                   (st\<lparr> tagStyles := obj_set tag sty (tagStyles st) \<rparr>))
                 \<lparr> tagStyles := obj_set ''default'' (sty\<lparr> imgSrc := Undef \<rparr>)
                      (tagStyles (st\<lparr> tagStyles := obj_set tag sty (tagStyles st) \<rparr>)) \<rparr>)
                 \<lparr> needsUpdate := True \<rparr>"
    have e: "setStyleForTag M tag sty k st =
            (case updateIfShould M k ?st2 of Inl e \<Rightarrow> Inl e | Inr r \<Rightarrow> Inr (True, snd r))"
      unfolding setStyleForTag_def Let_def d using True T by simp
    have p: "defaultStyle ?st2 = Some (sty\<lparr> imgSrc := Undef \<rparr>)"
            "warnings ?st2 = warnings st @ [(IMG_REFERENCE_PROPERTY M @ ''-on-default'', imgOnDefaultMessage M)]"
      by (simp_all add: defaultStyle_def obj_get_set_same logWarning_def)
    show ?thesis
      using e p True T by (intro exI[of _ ?st2]) simp
  next
    case F: False
    let ?st2 = "(st\<lparr> tagStyles := obj_set tag sty (tagStyles st) \<rparr>)\<lparr> needsUpdate := True \<rparr>"
    have e: "setStyleForTag M tag sty k st =
            (case updateIfShould M k ?st2 of Inl e \<Rightarrow> Inl e | Inr r \<Rightarrow> Inr (True, snd r))"
      unfolding setStyleForTag_def Let_def d using True F by simp
    have p: "defaultStyle ?st2 = Some sty" "warnings ?st2 = warnings st"
      using True by (simp_all add: defaultStyle_def DEFAULT_KEY_def obj_get_set_same)
    show ?thesis
      using e p True F by (intro exI[of _ ?st2]) simp
  qed
next
  case False
  let ?st2 = "(st\<lparr> tagStyles := obj_set tag sty (tagStyles st) \<rparr>)\<lparr> needsUpdate := True \<rparr>"
  have e: "setStyleForTag M tag sty k st =
            (case updateIfShould M k ?st2 of Inl e \<Rightarrow> Inl e | Inr r \<Rightarrow> Inr (True, snd r))"
    unfolding setStyleForTag_def Let_def using False by simp
  have p: "defaultStyle ?st2 = defaultStyle st" "warnings ?st2 = warnings st"
    using False by (simp_all add: defaultStyle_def DEFAULT_KEY_def obj_get_set_other)
  show ?thesis
    using e p False by (intro exI[of _ ?st2]) simp
qed



lemma setStyleForTag_completes: "\<exists>r. setStyleForTag M tag sty (Some True) st = Inr r"
proof -
  obtain st2 where e: "setStyleForTag M tag sty (Some True) st =
            (case updateIfShould M (Some True) st2 of Inl e \<Rightarrow> Inl e | Inr r \<Rightarrow> Inr (True, snd r))"
    using setStyleForTag_unfold[of M tag sty "Some True" st] by blast
  show ?thesis
    unfolding e updateIfShould_skip_completes by auto
qed


















end
